theory Spec2Isabelle
  imports Main
begin

section \<open>Python values, exceptions and results\<close>

text \<open>
  The functions of the repository raise and catch Python exceptions. A call that may raise
  returns a value of type \<open>py_exception + 'a\<close>: \<open>Inl e\<close> is the exception \<open>e\<close>
  leaving the call, \<open>Inr v\<close> is the returned value \<open>v\<close>.
\<close>

datatype py_exception =
  ValueError | OverflowError | IntegrityError | OperationalError | OSError | AttributeError
  | RenderError

text \<open>
  \<open>try: body except ValueError: handler\<close>: only a \<open>ValueError\<close> is caught, every
  other exception leaves the function.
\<close>

definition except_ValueError :: "py_exception + 'a \<Rightarrow> py_exception + 'a \<Rightarrow> py_exception + 'a" where
  "except_ValueError body handler = (case body of Inl ValueError \<Rightarrow> handler | r \<Rightarrow> r)"

section \<open>The calendar of the \<open>datetime\<close> module\<close>

text \<open>
  \<open>src/date_validator.py\<close> works on \<open>datetime\<close> values obtained from
  \<open>strptime(s, '%Y-%m-%d')\<close>, whose time of day is midnight, and on
  \<open>datetime.now().date()\<close>. Adding a whole number of days keeps the time at midnight, so
  a \<open>datetime\<close> of this program is its calendar date. The proleptic Gregorian ordinal
  follows the \<open>datetime\<close> module: \<open>_is_leap\<close>, \<open>_days_in_month\<close>,
  \<open>_days_before_year\<close>, \<open>_days_before_month\<close>, \<open>_ymd2ord\<close> and \<open>_ord2ymd\<close>.
\<close>

record date =
  year :: int
  month :: int
  day :: int

definition MINYEAR :: int where "MINYEAR = 1"
definition MAXYEAR :: int where "MAXYEAR = 9999"
definition MAXORDINAL :: int where "MAXORDINAL = 3652059"

definition is_leap :: "int \<Rightarrow> bool" where
  "is_leap y = (y mod 4 = 0 \<and> (y mod 100 \<noteq> 0 \<or> y mod 400 = 0))"

definition days_before_year :: "int \<Rightarrow> int" where
  "days_before_year y = (y - 1) * 365 + (y - 1) div 4 - (y - 1) div 100 + (y - 1) div 400"

definition DAYS_IN_MONTH :: "int \<Rightarrow> int" where
  "DAYS_IN_MONTH m =
     (if m = 2 then 28 else if m = 4 \<or> m = 6 \<or> m = 9 \<or> m = 11 then 30 else 31)"

definition DAYS_BEFORE_MONTH :: "int \<Rightarrow> int" where
  "DAYS_BEFORE_MONTH m =
     (if m = 1 then 0 else if m = 2 then 31 else if m = 3 then 59 else if m = 4 then 90
      else if m = 5 then 120 else if m = 6 then 151 else if m = 7 then 181
      else if m = 8 then 212 else if m = 9 then 243 else if m = 10 then 273
      else if m = 11 then 304 else 334)"

definition days_in_month :: "int \<Rightarrow> int \<Rightarrow> int" where
  "days_in_month y m = (if m = 2 \<and> is_leap y then 29 else DAYS_IN_MONTH m)"

definition days_before_month :: "int \<Rightarrow> int \<Rightarrow> int" where
  "days_before_month y m = DAYS_BEFORE_MONTH m + (if m > 2 \<and> is_leap y then 1 else 0)"

text \<open>The dates a \<open>date\<close> object can hold (the check of its constructor).\<close>

definition valid_date :: "date \<Rightarrow> bool" where
  "valid_date d =
     (MINYEAR \<le> year d \<and> year d \<le> MAXYEAR \<and> 1 \<le> month d \<and> month d \<le> 12 \<and>
      1 \<le> day d \<and> day d \<le> days_in_month (year d) (month d))"

text \<open>The same check without the bounds on the year.\<close>

definition valid_md :: "date \<Rightarrow> bool" where
  "valid_md d =
     (1 \<le> month d \<and> month d \<le> 12 \<and> 1 \<le> day d \<and> day d \<le> days_in_month (year d) (month d))"

definition ymd2ord :: "int \<Rightarrow> int \<Rightarrow> int \<Rightarrow> int" where
  "ymd2ord y m d = days_before_year y + days_before_month y m + d"

definition toordinal :: "date \<Rightarrow> int" where
  "toordinal d = ymd2ord (year d) (month d) (day d)"

definition ord2ymd :: "int \<Rightarrow> date" where
  "ord2ymd n =
     (let n0 = n - 1;
          n400 = n0 div 146097; r1 = n0 mod 146097;
          n100 = r1 div 36524; r2 = r1 mod 36524;
          n4 = r2 div 1461; r3 = r2 mod 1461;
          n1 = r3 div 365; r4 = r3 mod 365;
          y = n400 * 400 + 1 + n100 * 100 + n4 * 4 + n1
      in if n1 = 4 \<or> n100 = 4 then \<lparr>year = y - 1, month = 12, day = 31\<rparr>
         else
           let leapyear = (n1 = 3 \<and> (n4 \<noteq> 24 \<or> n100 = 3));
               m = (r4 + 50) div 32;
               preceding = DAYS_BEFORE_MONTH m + (if m > 2 \<and> leapyear then 1 else 0)
           in if preceding > r4
              then let m' = m - 1;
                       preceding' = preceding
                          - (DAYS_IN_MONTH m' + (if m' = 2 \<and> leapyear then 1 else 0))
                   in \<lparr>year = y, month = m', day = r4 - preceding' + 1\<rparr>
              else \<lparr>year = y, month = m, day = r4 - preceding + 1\<rparr>)"

definition fromordinal :: "int \<Rightarrow> date" where
  "fromordinal n = ord2ymd n"

text \<open>
  Comparison of two dates is the comparison of the triples \<open>(year, month, day)\<close>.
\<close>

definition date_lt :: "date \<Rightarrow> date \<Rightarrow> bool" where
  "date_lt a b =
     (year a < year b \<or> (year a = year b \<and>
        (month a < month b \<or> (month a = month b \<and> day a < day b))))"

definition date_gt :: "date \<Rightarrow> date \<Rightarrow> bool" where
  "date_gt a b = date_lt b a"

text \<open>
  \<open>timedelta(days=n)\<close> raises \<open>OverflowError\<close> outside \<open>-999999999 .. 999999999\<close>;
  \<open>d + timedelta(days=n)\<close> raises \<open>OverflowError\<close> when the ordinal leaves
  \<open>1 .. MAXORDINAL\<close>; \<open>(a - b).days\<close> is the difference of the ordinals.
\<close>

definition timedelta :: "int \<Rightarrow> py_exception + int" where
  "timedelta n = (if -999999999 \<le> n \<and> n \<le> 999999999 then Inr n else Inl OverflowError)"

definition date_add :: "date \<Rightarrow> int \<Rightarrow> py_exception + date" where
  "date_add d n =
     (let k = toordinal d + n
      in if 0 < k \<and> k \<le> MAXORDINAL then Inr (fromordinal k) else Inl OverflowError)"

definition date_plus_days :: "date \<Rightarrow> int \<Rightarrow> py_exception + date" where
  "date_plus_days d n = (case timedelta n of Inl e \<Rightarrow> Inl e | Inr k \<Rightarrow> date_add d k)"

definition days_between :: "date \<Rightarrow> date \<Rightarrow> int" where
  "days_between a b = toordinal a - toordinal b"


section \<open>Parsing and formatting dates\<close>

text \<open>
  \<open>datetime.strptime(s, '%Y-%m-%d')\<close> matches \<open>s\<close> from its start against the
  regular expression built from the format: four digits for \<open>%Y\<close>, the alternatives
  \<open>1[0-2] | 0[1-9] | [1-9]\<close> for \<open>%m\<close> and
  \<open>3[0-1] | [1-2]\d | 0[1-9] | [1-9] | space [1-9]\<close> for \<open>%d\<close>, tried in this
  order with backtracking. It raises \<open>ValueError\<close> when nothing matches, when text remains
  after the match, and when the numbers are not a date (year 0, or a day the month does not
  have). Strings are lists of 8-bit characters, whose only digits are \<open>0 .. 9\<close>; the
  parser of the interpreter takes the other decimal digits of Unicode as well, which
  these strings cannot hold.
\<close>

definition digit_of :: "char \<Rightarrow> int option" where
  "digit_of c =
     (let k = (of_char c :: nat) in if 48 \<le> k \<and> k \<le> 57 then Some (int k - 48) else None)"

fun match_Y :: "string \<Rightarrow> (int \<times> string) option" where
  "match_Y (a # b # c # d # rest) =
     (case digit_of a of None \<Rightarrow> None | Some w \<Rightarrow>
      case digit_of b of None \<Rightarrow> None | Some x \<Rightarrow>
      case digit_of c of None \<Rightarrow> None | Some y \<Rightarrow>
      case digit_of d of None \<Rightarrow> None | Some z \<Rightarrow>
        Some (1000 * w + 100 * x + 10 * y + z, rest))"
| "match_Y _ = None"

text \<open>
  One alternative made of two characters, the first a digit in \<open>lo1 .. hi1\<close> and the
  second a digit in \<open>lo2 .. hi2\<close>; and one made of a single digit in \<open>lo .. hi\<close>.
  Each gives the list of its matches (none or one): the number read and the rest of the text.
\<close>

fun two_digits :: "int \<Rightarrow> int \<Rightarrow> int \<Rightarrow> int \<Rightarrow> string \<Rightarrow> (int \<times> string) list" where
  "two_digits lo1 hi1 lo2 hi2 (a # b # rest) =
     (case digit_of a of None \<Rightarrow> [] | Some x \<Rightarrow>
      case digit_of b of None \<Rightarrow> [] | Some y \<Rightarrow>
        if lo1 \<le> x \<and> x \<le> hi1 \<and> lo2 \<le> y \<and> y \<le> hi2 then [(10 * x + y, rest)] else [])"
| "two_digits lo1 hi1 lo2 hi2 _ = []"

fun one_digit :: "int \<Rightarrow> int \<Rightarrow> string \<Rightarrow> (int \<times> string) list" where
  "one_digit lo hi (a # rest) =
     (case digit_of a of None \<Rightarrow> [] | Some x \<Rightarrow>
        if lo \<le> x \<and> x \<le> hi then [(x, rest)] else [])"
| "one_digit lo hi [] = []"

fun space_digit :: "string \<Rightarrow> (int \<times> string) list" where
  "space_digit (a # rest) = (if a = CHR '' '' then one_digit 1 9 rest else [])"
| "space_digit [] = []"

definition match_m :: "string \<Rightarrow> (int \<times> string) list" where
  "match_m s = two_digits 1 1 0 2 s @ two_digits 0 0 1 9 s @ one_digit 1 9 s"

definition match_d :: "string \<Rightarrow> (int \<times> string) list" where
  "match_d s = two_digits 3 3 0 1 s @ two_digits 1 2 0 9 s @ two_digits 0 0 1 9 s
               @ one_digit 1 9 s @ space_digit s"

fun expect_hyphen :: "string \<Rightarrow> string option" where
  "expect_hyphen (a # rest) = (if a = CHR ''-'' then Some rest else None)"
| "expect_hyphen [] = None"

text \<open>The first way through the alternatives of the month that lets the rest match.\<close>

fun match_md :: "(int \<times> string) list \<Rightarrow> (int \<times> int \<times> string) option" where
  "match_md [] = None"
| "match_md ((m, r) # alts) =
     (case expect_hyphen r of None \<Rightarrow> match_md alts
      | Some r' \<Rightarrow> (case match_d r' of [] \<Rightarrow> match_md alts
                   | (d, r'') # _ \<Rightarrow> Some (m, d, r'')))"

definition match_format :: "string \<Rightarrow> (int \<times> int \<times> int \<times> string) option" where
  "match_format s =
     (case match_Y s of None \<Rightarrow> None | Some (y, r) \<Rightarrow>
      case expect_hyphen r of None \<Rightarrow> None | Some r' \<Rightarrow>
      case match_md (match_m r') of None \<Rightarrow> None | Some (m, d, r'') \<Rightarrow> Some (y, m, d, r''))"

definition strptime :: "string \<Rightarrow> py_exception + date" where
  "strptime s =
     (case match_format s of None \<Rightarrow> Inl ValueError
      | Some (y, m, d, rest) \<Rightarrow>
          if rest \<noteq> [] then Inl ValueError
          else if MINYEAR \<le> y \<and> y \<le> MAXYEAR \<and> 1 \<le> m \<and> m \<le> 12
                  \<and> 1 \<le> d \<and> d \<le> days_in_month y m
          then Inr \<lparr>year = y, month = m, day = d\<rparr>
          else Inl ValueError)"

text \<open>
  The form the specification names, \<open>YYYY-MM-DD\<close>: ten characters, four digits, two
  digits and two digits with a hyphen between them, that are the year, the month and the
  day of a date of the calendar. It is defined from these words, not from the parser.
\<close>

definition digit_value :: "char \<Rightarrow> int" where
  "digit_value c = (case digit_of c of None \<Rightarrow> 0 | Some k \<Rightarrow> k)"

definition spec_well_formed_date :: "string \<Rightarrow> bool" where
  "spec_well_formed_date s =
     (length s = 10 \<and> s ! 4 = CHR ''-'' \<and> s ! 7 = CHR ''-''
      \<and> list_all (\<lambda>i. digit_of (s ! i) \<noteq> None) [0, 1, 2, 3, 5, 6, 8, 9]
      \<and> (let y = 1000 * digit_value (s ! 0) + 100 * digit_value (s ! 1)
                   + 10 * digit_value (s ! 2) + digit_value (s ! 3);
               m = 10 * digit_value (s ! 5) + digit_value (s ! 6);
               d = 10 * digit_value (s ! 8) + digit_value (s ! 9)
          in MINYEAR \<le> y \<and> 1 \<le> m \<and> m \<le> 12 \<and> 1 \<le> d \<and> d \<le> days_in_month y m))"

text \<open>
  \<open>strftime\<close> with \<open>%m\<close> and \<open>%d\<close> (two digits each) and \<open>%Y\<close>. The
  interpreter hands \<open>%Y\<close> to the C library: a year from 1000 on has its four digits
  everywhere, a year below 1000 is padded with zeros on some platforms and written without
  padding on others (\<open>999\<close>, as glibc does). The flag \<open>pads\<close> says which.
\<close>

definition digit_char :: "int \<Rightarrow> char" where
  "digit_char n = ''0123456789'' ! nat n"

definition pad2 :: "int \<Rightarrow> string" where
  "pad2 n = [digit_char (n div 10 mod 10), digit_char (n mod 10)]"

definition pad4 :: "int \<Rightarrow> string" where
  "pad4 n = [digit_char (n div 1000 mod 10), digit_char (n div 100 mod 10),
             digit_char (n div 10 mod 10), digit_char (n mod 10)]"

fun str_nat :: "nat \<Rightarrow> string" where
  "str_nat n =
     (if n < 10 then [digit_char (int n)]
      else str_nat (n div 10) @ [digit_char (int (n mod 10))])"

definition str_int :: "int \<Rightarrow> string" where
  "str_int i = (if i < 0 then CHR ''-'' # str_nat (nat (- i)) else str_nat (nat i))"

definition year_text :: "bool \<Rightarrow> int \<Rightarrow> string" where
  "year_text pads y = (if pads \<or> 1000 \<le> y then pad4 y else str_int y)"

definition strftime_ymd :: "bool \<Rightarrow> date \<Rightarrow> string" where
  "strftime_ymd pads d = year_text pads (year d) @ ''-'' @ pad2 (month d) @ ''-'' @ pad2 (day d)"

definition strftime_dmy :: "bool \<Rightarrow> date \<Rightarrow> string" where
  "strftime_dmy pads d = pad2 (day d) @ ''/'' @ pad2 (month d) @ ''/'' @ year_text pads (year d)"


section \<open>\<open>DateValidator\<close> (src/date\_validator.py)\<close>

text \<open>
  The current date \<open>datetime.now().date()\<close> is the parameter \<open>today\<close>, and the
  functions that format a date take the flag \<open>pads\<close> of \<open>strftime\<close>. The messages
  of the source are Portuguese sentences; each constructor of \<open>message\<close> stands for the
  literal of the source it is named after.
\<close>

datatype message =
    Data_de_inspecao_e_obrigatoria
  | Data_de_inspecao_nao_pode_ser_no_futuro
  | Data_de_inspecao_nao_pode_ser_ha_mais_de_30_dias
  | Data_valida
  | Formato_de_data_invalido
  | Data_da_ultima_inspecao_e_obrigatoria
  | Data_da_ultima_inspecao_nao_pode_ser_no_futuro
  | Data_da_ultima_inspecao_nao_pode_ser_ha_mais_de_10_anos
  | Data_nao_informada
  | Inspecao_vencida
  | Inspecao_vence_em_breve
  | Inspecao_vence_em_alguns_meses
  | Inspecao_em_dia
  | Erro_ao_processar_data
  | Ambas_as_datas_sao_obrigatorias
  | Data_inicial_nao_pode_ser_posterior_a_data_final
  | Intervalo_nao_pode_ser_maior_que_1_ano
  | Intervalo_valido

definition validate_inspection_date :: "date \<Rightarrow> string \<Rightarrow> py_exception + (bool \<times> message)" where
  "validate_inspection_date today date_str =
     except_ValueError
       (if date_str = [] then Inr (False, Data_de_inspecao_e_obrigatoria)
        else case strptime date_str of Inl e \<Rightarrow> Inl e
          | Inr inspection_date \<Rightarrow>
              if date_gt inspection_date today
              then Inr (False, Data_de_inspecao_nao_pode_ser_no_futuro)
              else (case date_plus_days today (- 30) of Inl e \<Rightarrow> Inl e
                | Inr limit \<Rightarrow>
                    if date_lt inspection_date limit
                    then Inr (False, Data_de_inspecao_nao_pode_ser_ha_mais_de_30_dias)
                    else Inr (True, Data_valida)))
       (Inr (False, Formato_de_data_invalido))"

definition validate_last_inspection_date :: "date \<Rightarrow> string \<Rightarrow> py_exception + (bool \<times> message)" where
  "validate_last_inspection_date today date_str =
     except_ValueError
       (if date_str = [] then Inr (False, Data_da_ultima_inspecao_e_obrigatoria)
        else case strptime date_str of Inl e \<Rightarrow> Inl e
          | Inr last_date \<Rightarrow>
              if date_gt last_date today
              then Inr (False, Data_da_ultima_inspecao_nao_pode_ser_no_futuro)
              else (case date_plus_days today (- 3650) of Inl e \<Rightarrow> Inl e
                | Inr limit \<Rightarrow>
                    if date_lt last_date limit
                    then Inr (False, Data_da_ultima_inspecao_nao_pode_ser_ha_mais_de_10_anos)
                    else Inr (True, Data_valida)))
       (Inr (False, Formato_de_data_invalido))"

definition calculate_next_inspection_date :: "bool \<Rightarrow> string \<Rightarrow> int \<Rightarrow> py_exception + string" where
  "calculate_next_inspection_date pads last_inspection_date validity_months =
     except_ValueError
       (case strptime last_inspection_date of Inl e \<Rightarrow> Inl e
        | Inr last_date \<Rightarrow>
            (case date_plus_days last_date (validity_months * 30) of Inl e \<Rightarrow> Inl e
             | Inr next_date \<Rightarrow> Inr (strftime_ymd pads next_date)))
       (Inr [])"

definition is_overdue :: "date \<Rightarrow> string \<Rightarrow> int \<Rightarrow> py_exception + bool" where
  "is_overdue today last_inspection_date validity_months =
     except_ValueError
       (if last_inspection_date = [] then Inr False
        else case strptime last_inspection_date of Inl e \<Rightarrow> Inl e
          | Inr last_date \<Rightarrow>
              (case date_plus_days last_date (validity_months * 30) of Inl e \<Rightarrow> Inl e
               | Inr due_date \<Rightarrow> Inr (date_gt today due_date)))
       (Inr False)"

definition get_days_until_due :: "date \<Rightarrow> string \<Rightarrow> int \<Rightarrow> py_exception + int" where
  "get_days_until_due today last_inspection_date validity_months =
     except_ValueError
       (if last_inspection_date = [] then Inr 0
        else case strptime last_inspection_date of Inl e \<Rightarrow> Inl e
          | Inr last_date \<Rightarrow>
              (case date_plus_days last_date (validity_months * 30) of Inl e \<Rightarrow> Inl e
               | Inr due_date \<Rightarrow> Inr (days_between due_date today)))
       (Inr 0)"

text \<open>
  The dictionary returned by \<open>get_inspection_status\<close>. The keys
  \<open>next_inspection_formatted\<close> and \<open>last_inspection_date\<close> are present only in the
  dictionary of a parsed date, and \<open>last_inspection_formatted\<close> is the only key present in
  all three dictionaries besides the first five.
\<close>

record inspection_status =
  status :: string
  status_message :: message
  status_is_overdue :: bool
  days_until_due :: int
  next_inspection_date :: string
  next_inspection_formatted :: "string option"
  last_inspection_formatted :: string
  last_inspection_date :: "string option"

definition get_inspection_status ::
    "bool \<Rightarrow> date \<Rightarrow> string \<Rightarrow> int \<Rightarrow> py_exception + inspection_status" where
  "get_inspection_status pads today last_inspection validity_months =
     except_ValueError
       (if last_inspection = []
        then Inr \<lparr>status = ''unknown'', status_message = Data_nao_informada,
                  status_is_overdue = False, days_until_due = 0, next_inspection_date = [],
                  next_inspection_formatted = None, last_inspection_formatted = [],
                  last_inspection_date = None\<rparr>
        else case strptime last_inspection of Inl e \<Rightarrow> Inl e
          | Inr last_date \<Rightarrow>
              (case date_plus_days last_date (validity_months * 30) of Inl e \<Rightarrow> Inl e
               | Inr next_date \<Rightarrow>
                   let d = days_between next_date today;
                       (st, msg) =
                          (if d < 0 then (''overdue'', Inspecao_vencida)
                           else if d \<le> 30 then (''warning'', Inspecao_vence_em_breve)
                           else if d \<le> 90 then (''attention'', Inspecao_vence_em_alguns_meses)
                           else (''ok'', Inspecao_em_dia))
                   in Inr \<lparr>status = st, status_message = msg,
                           status_is_overdue = (d < 0), days_until_due = d,
                           next_inspection_date = strftime_ymd pads next_date,
                           next_inspection_formatted = Some (strftime_dmy pads next_date),
                           last_inspection_formatted = strftime_dmy pads last_date,
                           last_inspection_date = Some last_inspection\<rparr>))
       (Inr \<lparr>status = ''error'', status_message = Erro_ao_processar_data,
              status_is_overdue = False, days_until_due = 0, next_inspection_date = [],
              next_inspection_formatted = None, last_inspection_formatted = [],
              last_inspection_date = None\<rparr>)"

definition validate_date_range :: "string \<Rightarrow> string \<Rightarrow> py_exception + (bool \<times> message)" where
  "validate_date_range start_date end_date =
     except_ValueError
       (if start_date = [] \<or> end_date = [] then Inr (False, Ambas_as_datas_sao_obrigatorias)
        else case strptime start_date of Inl e \<Rightarrow> Inl e
          | Inr start \<Rightarrow>
              (case strptime end_date of Inl e \<Rightarrow> Inl e
               | Inr end' \<Rightarrow>
                   if date_gt start end'
                   then Inr (False, Data_inicial_nao_pode_ser_posterior_a_data_final)
                   else if days_between end' start > 365
                   then Inr (False, Intervalo_nao_pode_ser_maior_que_1_ano)
                   else Inr (True, Intervalo_valido)))
       (Inr (False, Formato_de_data_invalido))"


section \<open>Python values and dictionaries\<close>

text \<open>
  The field values of a record are texts or \<open>None\<close>. A dictionary \<open>Dict[str, Any]\<close>
  is a map from keys to values; \<open>d.get(k, default)\<close> is \<open>dict_get\<close>.
\<close>

datatype pyval = PNone | PStr string

fun py_str :: "pyval \<Rightarrow> string" where
  "py_str PNone = ''None''"
| "py_str (PStr s) = s"

fun truthy :: "pyval \<Rightarrow> bool" where
  "truthy PNone = False"
| "truthy (PStr s) = (s \<noteq> [])"

type_synonym pydict = "string \<rightharpoonup> pyval"

definition dict_get :: "pydict \<Rightarrow> string \<Rightarrow> pyval \<Rightarrow> pyval" where
  "dict_get d k dflt = (case d k of None \<Rightarrow> dflt | Some v \<Rightarrow> v)"

section \<open>\<open>InspectionDatabase\<close> (src/database.py)\<close>

text \<open>
  The two tables of \<open>create_tables\<close>. A row of \<open>inspecoes\<close> has the integer key
  \<open>id\<close> (here \<open>row_id\<close>) and sixteen further columns; a row of
  \<open>historico_alteracoes\<close> has its own key (here \<open>log_id\<close>), the referenced
  inspection and four further columns. The first twelve data columns of \<open>inspecoes\<close> are
  declared \<open>NOT NULL\<close>; the connection runs with \<open>PRAGMA foreign_keys = ON\<close>, so
  \<open>historico_alteracoes.inspecao_id\<close> must name a row of \<open>inspecoes\<close> and a row of
  \<open>inspecoes\<close> that is referenced cannot be deleted.

  A stored value is \<open>NULL\<close>, a text, an integer or a real number; a real number is given
  by the text Python's \<open>str\<close> makes of it. The columns declared \<open>TEXT\<close> store a text
  as it is given. The columns declared \<open>DATE\<close> and \<open>TIMESTAMP\<close> have numeric
  affinity: a text that is a number is stored as that number (\<open>007\<close> as \<open>7\<close>,
  \<open>1e3\<close> as \<open>1000\<close>), every other text as it is given. Which number the
  engine makes of a text is the field \<open>numeric_value\<close> of the database; it is asked
  only for a text of the shape of a number (\<open>numeric_shape\<close>: at least one digit, only
  digits, signs, points, exponent letters and white space, a sign only at the start or after
  an exponent letter or white space), which every number written as a text has.
\<close>

datatype sqlval = Null | Text string | Integer int | Real string

fun sql_str :: "sqlval \<Rightarrow> string" where
  "sql_str Null = ''None''"
| "sql_str (Text s) = s"
| "sql_str (Integer i) = str_int i"
| "sql_str (Real r) = r"

definition sql_space :: "char \<Rightarrow> bool" where
  "sql_space c = (let k = (of_char c :: nat) in (9 \<le> k \<and> k \<le> 13) \<or> k = 32)"

fun signs_in_place :: "char option \<Rightarrow> string \<Rightarrow> bool" where
  "signs_in_place prev [] = True"
| "signs_in_place prev (c # cs) =
     ((c \<in> set ''+-'' \<longrightarrow>
         (case prev of None \<Rightarrow> True | Some p \<Rightarrow> p \<in> set ''eE'' \<or> sql_space p))
      \<and> signs_in_place (Some c) cs)"

definition numeric_shape :: "string \<Rightarrow> bool" where
  "numeric_shape s =
     ((\<exists>c \<in> set s. digit_of c \<noteq> None)
      \<and> (\<forall>c \<in> set s. digit_of c \<noteq> None \<or> c \<in> set ''+-.eE'' \<or> sql_space c)
      \<and> signs_in_place None s)"

fun store_text :: "pyval \<Rightarrow> sqlval" where
  "store_text PNone = Null"
| "store_text (PStr s) = Text s"

fun store_numeric :: "(string \<Rightarrow> sqlval) \<Rightarrow> pyval \<Rightarrow> sqlval" where
  "store_numeric nv PNone = Null"
| "store_numeric nv (PStr s) = (if numeric_shape s then nv s else Text s)"

record inspecao =
  row_id :: int
  plataforma :: sqlval
  modulo :: sqlval
  setor :: sqlval
  tipo_equipamento :: sqlval
  tag :: sqlval
  defeito :: sqlval
  causa :: sqlval
  categoria_rti :: sqlval
  recomendacao :: sqlval
  ultima_inspecao :: sqlval
  data_inspecao :: sqlval
  tipo_dano :: sqlval
  observacoes :: sqlval
  foto_path :: sqlval
  created_at :: sqlval
  updated_at :: sqlval

record alteracao =
  log_id :: int
  inspecao_id :: int
  campo :: string
  valor_anterior :: string
  valor_novo :: string
  data_alteracao :: string

text \<open>
  The state of the database file: the rows of both tables in insertion order and, for each
  table, the largest key handed out so far (\<open>AUTOINCREMENT\<close> keeps it in
  \<open>sqlite_sequence\<close>; deleting rows does not lower it), together with the conversion
  of the engine that reads and writes the file.
\<close>

record database =
  inspecoes :: "inspecao list"
  historico_alteracoes :: "alteracao list"
  seq_inspecoes :: int
  seq_historico :: int
  numeric_value :: "string \<Rightarrow> sqlval"

text \<open>
  An integer bound to a statement, and every key, is a signed 64-bit integer: binding any
  other Python integer raises \<open>OverflowError\<close>, and a table whose largest key is the
  largest such integer takes no further row (\<open>OperationalError\<close>).
\<close>

definition in_int64 :: "int \<Rightarrow> bool" where
  "in_int64 i = (- (2 ^ 63) \<le> i \<and> i < 2 ^ 63)"

text \<open>
  The clock: \<open>isoformat_now k\<close> is the \<open>k\<close>-th reading of
  \<open>datetime.now().isoformat()\<close> within a call, \<open>CURRENT_TIMESTAMP k\<close> the default
  value of \<open>data_alteracao\<close> for the \<open>k\<close>-th row inserted within a call.
\<close>

record clock =
  isoformat_now :: "nat \<Rightarrow> string"
  CURRENT_TIMESTAMP :: "nat \<Rightarrow> string"

text \<open>The files of the photo directory, and the paths whose removal fails.\<close>

record filesystem =
  files :: "string set"
  undeletable :: "string set"

definition os_path_exists :: "filesystem \<Rightarrow> string \<Rightarrow> bool" where
  "os_path_exists fs p = (p \<in> files fs)"

definition os_remove :: "filesystem \<Rightarrow> string \<Rightarrow> py_exception + filesystem" where
  "os_remove fs p =
     (if p \<in> files fs \<and> p \<notin> undeletable fs then Inr (fs\<lparr>files := files fs - {p}\<rparr>)
      else Inl OSError)"

definition next_rowid :: "int \<Rightarrow> int list \<Rightarrow> int" where
  "next_rowid seq ids = fold max ids seq + 1"

text \<open>
  The values bound to the fourteen data columns by \<open>save_inspection\<close> and
  \<open>update_inspection\<close>, read from the dictionary under the keys of the form, as the
  columns store them: \<open>ultima_inspecao\<close> and \<open>data_inspecao\<close> are declared
  \<open>DATE\<close>, the other twelve \<open>TEXT\<close>.
\<close>

definition not_null_violation :: "pydict \<Rightarrow> bool" where
  "not_null_violation data =
     (\<exists>k \<in> set [''plataforma'', ''modulo'', ''setor'', ''tipoEquipamento'', ''tag'', ''defeito'',
                  ''causa'', ''categoriaRTI'', ''recomendacao'', ''ultima'', ''data'', ''tipoDano''].
        dict_get data k (PStr []) = PNone)"

definition bind_columns :: "(string \<Rightarrow> sqlval) \<Rightarrow> pydict \<Rightarrow> inspecao \<Rightarrow> inspecao" where
  "bind_columns nv data r =
     r\<lparr>plataforma := store_text (dict_get data ''plataforma'' (PStr [])),
       modulo := store_text (dict_get data ''modulo'' (PStr [])),
       setor := store_text (dict_get data ''setor'' (PStr [])),
       tipo_equipamento := store_text (dict_get data ''tipoEquipamento'' (PStr [])),
       tag := store_text (dict_get data ''tag'' (PStr [])),
       defeito := store_text (dict_get data ''defeito'' (PStr [])),
       causa := store_text (dict_get data ''causa'' (PStr [])),
       categoria_rti := store_text (dict_get data ''categoriaRTI'' (PStr [])),
       recomendacao := store_text (dict_get data ''recomendacao'' (PStr [])),
       ultima_inspecao := store_numeric nv (dict_get data ''ultima'' (PStr [])),
       data_inspecao := store_numeric nv (dict_get data ''data'' (PStr [])),
       tipo_dano := store_text (dict_get data ''tipoDano'' (PStr [])),
       observacoes := store_text (dict_get data ''observacoes'' (PStr [])),
       foto_path := store_text (dict_get data ''foto_path'' (PStr []))\<rparr>"

definition empty_row :: inspecao where
  "empty_row =
     \<lparr>row_id = 0, plataforma = Null, modulo = Null, setor = Null, tipo_equipamento = Null,
      tag = Null, defeito = Null, causa = Null, categoria_rti = Null, recomendacao = Null,
      ultima_inspecao = Null, data_inspecao = Null, tipo_dano = Null, observacoes = Null,
      foto_path = Null, created_at = Null, updated_at = Null\<rparr>"

text \<open>
  \<open>save_inspection\<close>: the \<open>INSERT\<close> fails with \<open>IntegrityError\<close> on a \<open>NULL\<close>
  in a \<open>NOT NULL\<close> column and with \<open>OperationalError\<close> when no key is left; the
  handler rolls back and raises again. Otherwise the row is inserted under a fresh key,
  which is returned. The two time stamps are bound to \<open>TIMESTAMP\<close> columns.
\<close>

definition save_inspection :: "clock \<Rightarrow> pydict \<Rightarrow> database \<Rightarrow> (py_exception + int) \<times> database" where
  "save_inspection clk data db =
     (if not_null_violation data then (Inl IntegrityError, db)
      else
        let inspection_id = next_rowid (seq_inspecoes db) (map row_id (inspecoes db))
        in if \<not> in_int64 inspection_id then (Inl OperationalError, db)
           else
             let row = (bind_columns (numeric_value db) data empty_row)
                    \<lparr>row_id := inspection_id,
                     created_at := store_numeric (numeric_value db) (PStr (isoformat_now clk 0)),
                     updated_at := store_numeric (numeric_value db) (PStr (isoformat_now clk 1))\<rparr>
             in (Inr inspection_id,
                 db\<lparr>inspecoes := inspecoes db @ [row], seq_inspecoes := inspection_id\<rparr>))"

text \<open>
  \<open>get_inspection_by_id\<close>: every exception of the query is caught and gives \<open>None\<close>,
  so an identifier that cannot be bound gives \<open>None\<close> as well.
\<close>

definition get_inspection_by_id :: "database \<Rightarrow> int \<Rightarrow> inspecao option" where
  "get_inspection_by_id db inspection_id =
     (if in_int64 inspection_id then find (\<lambda>r. row_id r = inspection_id) (inspecoes db)
      else None)"

text \<open>
  \<open>dict(row)\<close>: the keys are the column names in the order of the table, and
  \<open>row_get\<close> is \<open>dict(row).get(field, '')\<close> for every column but \<open>id\<close>, whose
  integer value the program never reads through the dictionary.
\<close>

definition inspecoes_columns :: "string list" where
  "inspecoes_columns =
     [''id'', ''plataforma'', ''modulo'', ''setor'', ''tipo_equipamento'', ''tag'', ''defeito'',
      ''causa'', ''categoria_rti'', ''recomendacao'', ''ultima_inspecao'', ''data_inspecao'',
      ''tipo_dano'', ''observacoes'', ''foto_path'', ''created_at'', ''updated_at'']"

definition row_get :: "inspecao \<Rightarrow> string \<Rightarrow> sqlval" where
  "row_get r field =
     (if field = ''plataforma'' then plataforma r
      else if field = ''modulo'' then modulo r
      else if field = ''setor'' then setor r
      else if field = ''tipo_equipamento'' then tipo_equipamento r
      else if field = ''tag'' then tag r
      else if field = ''defeito'' then defeito r
      else if field = ''causa'' then causa r
      else if field = ''categoria_rti'' then categoria_rti r
      else if field = ''recomendacao'' then recomendacao r
      else if field = ''ultima_inspecao'' then ultima_inspecao r
      else if field = ''data_inspecao'' then data_inspecao r
      else if field = ''tipo_dano'' then tipo_dano r
      else if field = ''observacoes'' then observacoes r
      else if field = ''foto_path'' then foto_path r
      else if field = ''created_at'' then created_at r
      else if field = ''updated_at'' then updated_at r
      else Text [])"

text \<open>
  \<open>_log_changes\<close>: the loop over the keys of the stored record. The \<open>INSERT\<close> into
  \<open>historico_alteracoes\<close> fails when the identifier cannot be bound, when the inspection
  does not exist (foreign key) and when no key is left; the exception leaves the loop and
  is swallowed by the handler, the rows inserted before stay.
\<close>

definition insert_alteracao :: "clock \<Rightarrow> nat \<Rightarrow> int \<Rightarrow> string \<Rightarrow> string \<Rightarrow> string \<Rightarrow> database
    \<Rightarrow> py_exception + database" where
  "insert_alteracao clk k inspection_id field old_value new_value db =
     (if \<not> in_int64 inspection_id then Inl OverflowError
      else if inspection_id \<notin> set (map row_id (inspecoes db)) then Inl IntegrityError
      else
        let i = next_rowid (seq_historico db) (map log_id (historico_alteracoes db))
        in if \<not> in_int64 i then Inl OperationalError
           else
             let row = \<lparr>log_id = i, inspecao_id = inspection_id, campo = field,
                        valor_anterior = old_value, valor_novo = new_value,
                        data_alteracao = CURRENT_TIMESTAMP clk k\<rparr>
             in Inr (db\<lparr>historico_alteracoes := historico_alteracoes db @ [row],
                         seq_historico := i\<rparr>))"

fun log_changes_loop :: "clock \<Rightarrow> nat \<Rightarrow> int \<Rightarrow> inspecao \<Rightarrow> pydict \<Rightarrow> string list \<Rightarrow> database
    \<Rightarrow> database" where
  "log_changes_loop clk k inspection_id old_data new_data [] db = db"
| "log_changes_loop clk k inspection_id old_data new_data (field # rest) db =
     (if field \<in> set [''id'', ''created_at'', ''updated_at'']
      then log_changes_loop clk k inspection_id old_data new_data rest db
      else
        let old_value = sql_str (row_get old_data field);
            new_value = py_str (dict_get new_data field (PStr []))
        in if old_value \<noteq> new_value
           then (case insert_alteracao clk k inspection_id field old_value new_value db of
                   Inl e \<Rightarrow> db
                 | Inr db' \<Rightarrow>
                     log_changes_loop clk (Suc k) inspection_id old_data new_data rest db')
           else log_changes_loop clk k inspection_id old_data new_data rest db)"

definition log_changes :: "clock \<Rightarrow> int \<Rightarrow> inspecao \<Rightarrow> pydict \<Rightarrow> database \<Rightarrow> database" where
  "log_changes clk inspection_id old_data new_data db =
     log_changes_loop clk 0 inspection_id old_data new_data inspecoes_columns db"

text \<open>
  \<open>update_inspection\<close>: \<open>False\<close> at once when the record does not exist; \<open>False\<close>
  after a rollback when the \<open>UPDATE\<close> fails (\<open>NULL\<close> in a \<open>NOT NULL\<close> column);
  otherwise the row is updated, the changes are logged and the transaction is committed.
\<close>

definition update_inspection :: "clock \<Rightarrow> int \<Rightarrow> pydict \<Rightarrow> database \<Rightarrow> bool \<times> database" where
  "update_inspection clk inspection_id data db =
     (case get_inspection_by_id db inspection_id of
        None \<Rightarrow> (False, db)
      | Some current_data \<Rightarrow>
          if not_null_violation data then (False, db)
          else
            let updated = map (\<lambda>r. if row_id r = inspection_id
                                 then (bind_columns (numeric_value db) data r)
                                        \<lparr>updated_at :=
                                           store_numeric (numeric_value db)
                                             (PStr (isoformat_now clk 0))\<rparr>
                                 else r) (inspecoes db);
                db1 = db\<lparr>inspecoes := updated\<rparr>;
                db2 = log_changes clk inspection_id current_data data db1
            in (True, db2))"

text \<open>
  \<open>delete_inspection\<close>: the photo of the record, when it has one, is removed first and a
  failure of the removal is swallowed. The \<open>DELETE\<close> fails with \<open>OverflowError\<close>
  when the identifier cannot be bound and with \<open>IntegrityError\<close> when a row of
  \<open>historico_alteracoes\<close> references the record: rollback and \<open>False\<close>. Otherwise
  the rows with this key are deleted and \<open>True\<close> is returned. The column
  \<open>foto_path\<close> is declared \<open>TEXT\<close> and holds a text or \<open>NULL\<close>.
\<close>

definition remove_photo :: "filesystem \<Rightarrow> sqlval \<Rightarrow> filesystem" where
  "remove_photo fs p =
     (case p of
        Text path \<Rightarrow>
          if path \<noteq> [] \<and> os_path_exists fs path
          then (case os_remove fs path of Inl e \<Rightarrow> fs | Inr fs' \<Rightarrow> fs')
          else fs
      | _ \<Rightarrow> fs)"

definition delete_inspection :: "int \<Rightarrow> database \<Rightarrow> filesystem \<Rightarrow> bool \<times> database \<times> filesystem" where
  "delete_inspection inspection_id db fs =
     (let fs' = (case get_inspection_by_id db inspection_id of
                   None \<Rightarrow> fs
                 | Some inspection \<Rightarrow> remove_photo fs (foto_path inspection))
      in if \<not> in_int64 inspection_id then (False, db, fs')
         else if inspection_id \<in> set (map row_id (inspecoes db))
            \<and> inspection_id \<in> set (map inspecao_id (historico_alteracoes db))
         then (False, db, fs')
         else (True,
               db\<lparr>inspecoes := filter (\<lambda>r. row_id r \<noteq> inspection_id) (inspecoes db)\<rparr>,
               fs'))"

text \<open>
  \<open>clear_all_inspections\<close>: the loop over the rows with a photo path removes each file
  that exists, swallowing a failure; \<open>DELETE FROM inspecoes\<close> fails when a row of
  \<open>historico_alteracoes\<close> references one of the records (rollback, \<open>False\<close>);
  otherwise both tables are emptied.
\<close>

definition clear_all_inspections :: "database \<Rightarrow> filesystem \<Rightarrow> bool \<times> database \<times> filesystem" where
  "clear_all_inspections db fs =
     (let fs' = fold (\<lambda>r f. remove_photo f (foto_path r)) (inspecoes db) fs
      in if \<exists>h \<in> set (historico_alteracoes db). inspecao_id h \<in> set (map row_id (inspecoes db))
         then (False, db, fs')
         else (True, db\<lparr>inspecoes := [], historico_alteracoes := []\<rparr>, fs'))"


section \<open>\<open>InspectionReportGenerator\<close> (src/report\_generator.py)\<close>

text \<open>
  The story of a report is a list of flowables. The fixed headings of the source are the
  constructors of \<open>heading\<close>; a table is the list of the values of its second column,
  in the order of its rows. Rendering (\<open>doc.build\<close>) and the loading of an image belong to
  the document library: they are parameters of the model, as are the clock, the current date
  and the file system.
\<close>

datatype heading =
    RELATORIO_DE_INSPECAO_DE_EQUIPAMENTO
  | INFORMACOES_BASICAS
  | DETALHES_DA_INSPECAO
  | OBSERVACOES
  | FOTO_DA_INSPECAO
  | STATUS_E_RECOMENDACOES

datatype flowable =
    Heading heading
  | Spacer int int
  | Table "pyval list"
  | Body_text pyval
  | Image string
  | Arquivo string
  | Erro_ao_carregar_foto
  | Status_table string string int message
  | Rule
  | Relatorio_gerado_em string
  | Sistema_de_Inspecao_de_Equipamentos

record report_env =
  output_dir :: string
  strftime_now :: "nat \<Rightarrow> string"
  footer_now :: "nat \<Rightarrow> string"
  report_today :: date
  pads_year :: bool
  report_files :: filesystem
  image_loads :: "string \<Rightarrow> bool"
  doc_build :: "string \<Rightarrow> flowable list \<Rightarrow> py_exception option"

definition os_path_join :: "string \<Rightarrow> string \<Rightarrow> string" where
  "os_path_join a b =
     (if a = [] then b else if last a = CHR ''/'' then a @ b else a @ ''/'' @ b)"

definition create_basic_info_section :: "pydict \<Rightarrow> flowable list" where
  "create_basic_info_section data =
     [Heading INFORMACOES_BASICAS,
      Table [dict_get data ''plataforma'' (PStr ''N/A''), dict_get data ''modulo'' (PStr ''N/A''),
             dict_get data ''setor'' (PStr ''N/A''),
             dict_get data ''tipoEquipamento'' (PStr ''N/A''),
             dict_get data ''tag'' (PStr ''N/A'')]]"

definition create_inspection_details_section :: "pydict \<Rightarrow> flowable list" where
  "create_inspection_details_section data =
     [Heading DETALHES_DA_INSPECAO,
      Table [dict_get data ''ultima'' (PStr ''N/A''), dict_get data ''data'' (PStr ''N/A''),
             dict_get data ''tipoDano'' (PStr ''N/A''), dict_get data ''defeito'' (PStr ''N/A''),
             dict_get data ''causa'' (PStr ''N/A''), dict_get data ''categoriaRTI'' (PStr ''N/A''),
             dict_get data ''recomendacao'' (PStr ''N/A'')]]
     @ (if truthy (dict_get data ''observacoes'' PNone)
        then [Spacer 1 15, Heading OBSERVACOES, Body_text (dict_get data ''observacoes'' PNone)]
        else [])"

definition create_photo_section :: "report_env \<Rightarrow> string \<Rightarrow> flowable list" where
  "create_photo_section env photo_path =
     Heading FOTO_DA_INSPECAO #
       (if image_loads env photo_path then [Image photo_path, Arquivo photo_path]
        else [Erro_ao_carregar_foto])"

definition create_status_section :: "report_env \<Rightarrow> pydict \<Rightarrow> py_exception + flowable list" where
  "create_status_section env data =
     (case dict_get data ''ultima'' (PStr []) of
        PNone \<Rightarrow> Inr [Heading STATUS_E_RECOMENDACOES]
      | PStr last_inspection \<Rightarrow>
          if last_inspection = [] then Inr [Heading STATUS_E_RECOMENDACOES]
          else (case get_inspection_status (pads_year env) (report_today env) last_inspection 12 of
                  Inl e \<Rightarrow> Inl e
                | Inr status_info \<Rightarrow>
                    Inr [Heading STATUS_E_RECOMENDACOES,
                         Status_table (last_inspection_formatted status_info)
                           (case next_inspection_formatted status_info of
                              None \<Rightarrow> ''N/A'' | Some f \<Rightarrow> f)
                           (days_until_due status_info)
                           (status_message status_info)]))"

definition create_footer_section :: "report_env \<Rightarrow> nat \<Rightarrow> flowable list" where
  "create_footer_section env k =
     [Spacer 1 30, Rule, Relatorio_gerado_em (footer_now env k),
      Sistema_de_Inspecao_de_Equipamentos]"

text \<open>
  \<open>generate_inspection_report\<close>, for the \<open>k\<close>-th report of the run. The photo block is
  added only when a photo path is given and names an existing file. The handler of the
  function prints and raises again, so every exception leaves the function.
\<close>

definition generate_inspection_report ::
    "report_env \<Rightarrow> nat \<Rightarrow> pydict \<Rightarrow> pyval \<Rightarrow> py_exception + string" where
  "generate_inspection_report env k inspection_data photo_path =
     (let timestamp = strftime_now env k;
          equipment_tag = dict_get inspection_data ''tag'' (PStr ''UNKNOWN'');
          filename = ''relatorio_inspecao_'' @ py_str equipment_tag @ ''_'' @ timestamp @ ''.pdf'';
          filepath = os_path_join (output_dir env) filename;
          story1 = [Heading RELATORIO_DE_INSPECAO_DE_EQUIPAMENTO, Spacer 1 20]
                   @ create_basic_info_section inspection_data @ [Spacer 1 20]
                   @ create_inspection_details_section inspection_data @ [Spacer 1 20];
          story2 = (case photo_path of
                      PNone \<Rightarrow> story1
                    | PStr path \<Rightarrow>
                        if path \<noteq> [] \<and> os_path_exists (report_files env) path
                        then story1 @ create_photo_section env path @ [Spacer 1 20]
                        else story1)
      in case create_status_section env inspection_data of
           Inl e \<Rightarrow> Inl e
         | Inr status_section \<Rightarrow>
             let story = story2 @ status_section @ [Spacer 1 20] @ create_footer_section env k
             in (case doc_build env filepath story of
                   Some e \<Rightarrow> Inl e
                 | None \<Rightarrow> Inr filepath))"

text \<open>
  \<open>generate_batch_reports\<close>: the loop over the inspections, numbered from 1. The messages
  printed are kept: the last one gives the number of reports generated and the number of
  inspections.
\<close>

datatype batch_message =
    Gerando nat
  | Relatorio_gerado nat nat string
  | Erro_ao_gerar_relatorio nat py_exception
  | Geracao_em_lote_concluida nat nat

fun batch_loop :: "report_env \<Rightarrow> nat \<Rightarrow> nat \<Rightarrow> pydict list \<Rightarrow> string list \<Rightarrow> batch_message list
    \<Rightarrow> string list \<times> batch_message list" where
  "batch_loop env n i [] generated_files printed = (generated_files, printed)"
| "batch_loop env n i (inspection # rest) generated_files printed =
     (let photo_path = dict_get inspection ''foto_path'' PNone
      in case generate_inspection_report env i inspection photo_path of
           Inr pdf_path \<Rightarrow>
             batch_loop env n (Suc i) rest (generated_files @ [pdf_path])
               (printed @ [Relatorio_gerado i n pdf_path])
         | Inl e \<Rightarrow>
             batch_loop env n (Suc i) rest generated_files
               (printed @ [Erro_ao_gerar_relatorio i e]))"

definition generate_batch_reports :: "report_env \<Rightarrow> pydict list \<Rightarrow> string list \<times> batch_message list" where
  "generate_batch_reports env inspections =
     (let n = length inspections;
          (generated_files, printed) = batch_loop env n 1 inspections [] [Gerando n]
      in (generated_files, printed @ [Geracao_em_lote_concluida (length generated_files) n]))"

section \<open>The form (src/main.py)\<close>

text \<open>
  The variables of the form are the attributes \<open>plataforma_var\<close>, \<open>modulo_var\<close>, ...
  created by \<open>setup_variables\<close>; \<open>getattr\<close> on any other name raises
  \<open>AttributeError\<close>. \<open>strip\<close> removes the white space at both ends.
\<close>

record form =
  plataforma_var :: string
  modulo_var :: string
  setor_var :: string
  tipo_equipamento_var :: string
  tag_var :: string
  defeito_var :: string
  causa_var :: string
  categoria_rti_var :: string
  recomendacao_var :: string
  ultima_var :: string
  data_var :: string
  tipo_dano_var :: string
  observacoes_var :: string
  observacoes_text :: string
  current_photo_path :: pyval

definition isspace :: "char \<Rightarrow> bool" where
  "isspace c =
     (let k = (of_char c :: nat)
      in (9 \<le> k \<and> k \<le> 13) \<or> (28 \<le> k \<and> k \<le> 32) \<or> k = 133 \<or> k = 160)"

definition strip :: "string \<Rightarrow> string" where
  "strip s = rev (dropWhile isspace (rev (dropWhile isspace s)))"

definition getattr :: "form \<Rightarrow> string \<Rightarrow> py_exception + string" where
  "getattr f name =
     (if name = ''plataforma_var'' then Inr (plataforma_var f)
      else if name = ''modulo_var'' then Inr (modulo_var f)
      else if name = ''setor_var'' then Inr (setor_var f)
      else if name = ''tipo_equipamento_var'' then Inr (tipo_equipamento_var f)
      else if name = ''tag_var'' then Inr (tag_var f)
      else if name = ''defeito_var'' then Inr (defeito_var f)
      else if name = ''causa_var'' then Inr (causa_var f)
      else if name = ''categoria_rti_var'' then Inr (categoria_rti_var f)
      else if name = ''recomendacao_var'' then Inr (recomendacao_var f)
      else if name = ''ultima_var'' then Inr (ultima_var f)
      else if name = ''data_var'' then Inr (data_var f)
      else if name = ''tipo_dano_var'' then Inr (tipo_dano_var f)
      else if name = ''observacoes_var'' then Inr (observacoes_var f)
      else Inl AttributeError)"

text \<open>
  The dialogs shown to the user. \<open>Campo_e_obrigatorio\<close> is the validation error, named by
  the key of the field in \<open>required_fields\<close>.
\<close>

datatype dialog =
    Campo_e_obrigatorio string
  | Inspecao_salva int string
  | Erro_ao_salvar_inspecao py_exception

definition required_fields :: "string list" where
  "required_fields =
     [''plataforma'', ''modulo'', ''setor'', ''tipoEquipamento'', ''defeito'', ''causa'',
      ''categoriaRTI'', ''recomendacao'', ''ultima'', ''data'', ''tipoDano'']"

fun validate_fields :: "form \<Rightarrow> string list \<Rightarrow> py_exception + (bool \<times> dialog list)" where
  "validate_fields f [] = Inr (True, [])"
| "validate_fields f (field_var # rest) =
     (case getattr f (field_var @ ''_var'') of
        Inl e \<Rightarrow> Inl e
      | Inr v \<Rightarrow>
          if strip v = [] then Inr (False, [Campo_e_obrigatorio field_var])
          else validate_fields f rest)"

definition validate_form :: "form \<Rightarrow> py_exception + (bool \<times> dialog list)" where
  "validate_form f = validate_fields f required_fields"

definition collect_form_data :: "form \<Rightarrow> pydict" where
  "collect_form_data f =
     [''plataforma'' \<mapsto> PStr (strip (plataforma_var f)),
      ''modulo'' \<mapsto> PStr (strip (modulo_var f)),
      ''setor'' \<mapsto> PStr (strip (setor_var f)),
      ''tipoEquipamento'' \<mapsto> PStr (strip (tipo_equipamento_var f)),
      ''tag'' \<mapsto> PStr (strip (tag_var f)),
      ''defeito'' \<mapsto> PStr (strip (defeito_var f)),
      ''causa'' \<mapsto> PStr (strip (causa_var f)),
      ''categoriaRTI'' \<mapsto> PStr (strip (categoria_rti_var f)),
      ''recomendacao'' \<mapsto> PStr (strip (recomendacao_var f)),
      ''ultima'' \<mapsto> PStr (strip (ultima_var f)),
      ''data'' \<mapsto> PStr (strip (data_var f)),
      ''tipoDano'' \<mapsto> PStr (strip (tipo_dano_var f)),
      ''observacoes'' \<mapsto> PStr (strip (observacoes_text f)),
      ''foto_path'' \<mapsto> (if truthy (current_photo_path f) then current_photo_path f else PStr [])]"

definition clear_form :: "bool \<Rightarrow> date \<Rightarrow> form \<Rightarrow> form" where
  "clear_form pads today f =
     f\<lparr>plataforma_var := [], modulo_var := [], setor_var := [], tipo_equipamento_var := [],
       tag_var := [], defeito_var := [], causa_var := [], categoria_rti_var := [],
       recomendacao_var := [], ultima_var := [], data_var := strftime_ymd pads today,
       tipo_dano_var := [], observacoes_text := [], current_photo_path := PNone\<rparr>"

text \<open>
  \<open>InspectionFormApp.save_inspection\<close>: validation, then the insert, then the report. Any
  exception is caught and shown in an error dialog.
\<close>

definition app_save_inspection ::
    "clock \<Rightarrow> report_env \<Rightarrow> form \<Rightarrow> database \<Rightarrow> dialog list \<times> form \<times> database" where
  "app_save_inspection clk env f db =
     (case validate_form f of
        Inl e \<Rightarrow> ([Erro_ao_salvar_inspecao e], f, db)
      | Inr (ok, shown) \<Rightarrow>
          if \<not> ok then (shown, f, db)
          else
            let inspection_data = collect_form_data f
            in (case save_inspection clk inspection_data db of
                  (Inl e, db') \<Rightarrow> ([Erro_ao_salvar_inspecao e], f, db')
                | (Inr inspection_id, db') \<Rightarrow>
                    (case generate_inspection_report env 0 inspection_data (current_photo_path f) of
                       Inl e \<Rightarrow> ([Erro_ao_salvar_inspecao e], f, db')
                     | Inr pdf_path \<Rightarrow>
                         ([Inspecao_salva inspection_id pdf_path],
                          clear_form (pads_year env) (report_today env) f, db'))))"

section \<open>Concrete inputs\<close>

text \<open>
  A database without rows, a clock, a field set as the form produces it (with the keys of
  \<open>collect_form_data\<close>), a photo directory and an environment for the reports whose
  renderer always succeeds. They are the inputs at which the properties below are evaluated.
  No text of these inputs has the shape of a number, so the conversion of the engine is
  never asked; the database carries one that leaves every text as it is.
\<close>

definition empty_database :: database where
  "empty_database =
     \<lparr>inspecoes = [], historico_alteracoes = [], seq_inspecoes = 0, seq_historico = 0,
      numeric_value = (\<lambda>s. Text s)\<rparr>"

definition example_clock :: clock where
  "example_clock =
     \<lparr>isoformat_now = (\<lambda>k. ''2025-03-11T10:15:00''),
      CURRENT_TIMESTAMP = (\<lambda>k. ''2025-03-11 13:15:00'')\<rparr>"

definition example_fields :: pydict where
  "example_fields =
     [''plataforma'' \<mapsto> PStr ''P-1'', ''modulo'' \<mapsto> PStr ''M01'', ''setor'' \<mapsto> PStr ''S01'',
      ''tipoEquipamento'' \<mapsto> PStr ''Tanque'', ''tag'' \<mapsto> PStr ''TQ-001'',
      ''defeito'' \<mapsto> PStr ''Trinca'', ''causa'' \<mapsto> PStr ''Impacto'',
      ''categoriaRTI'' \<mapsto> PStr ''II'', ''recomendacao'' \<mapsto> PStr ''Pintura'',
      ''ultima'' \<mapsto> PStr ''2024-03-15'', ''data'' \<mapsto> PStr ''2025-03-01'',
      ''tipoDano'' \<mapsto> PStr ''Localizado'', ''observacoes'' \<mapsto> PStr [],
      ''foto_path'' \<mapsto> PStr []]"

text \<open>The same field set with a photo path, and the database holding one such record.\<close>

definition example_fields_with_photo :: pydict where
  "example_fields_with_photo = example_fields(''foto_path'' \<mapsto> PStr ''fotos/a.jpg'')"

definition one_record_database :: database where
  "one_record_database = snd (save_inspection example_clock example_fields empty_database)"

definition one_photo_database :: database where
  "one_photo_database =
     snd (save_inspection example_clock example_fields_with_photo empty_database)"

definition empty_directory :: filesystem where
  "empty_directory = \<lparr>files = {}, undeletable = {}\<rparr>"

definition protected_photo_directory :: filesystem where
  "protected_photo_directory = \<lparr>files = {''fotos/a.jpg''}, undeletable = {''fotos/a.jpg''}\<rparr>"

definition example_env :: report_env where
  "example_env =
     \<lparr>output_dir = ''relatorios'',
      strftime_now = (\<lambda>k. ''20250311_101500''),
      footer_now = (\<lambda>k. ''11/03/2025 10:15:00''),
      report_today = \<lparr>year = 2025, month = 3, day = 11\<rparr>,
      pads_year = False,
      report_files = empty_directory,
      image_loads = (\<lambda>p. True),
      doc_build = (\<lambda>path story. None)\<rparr>"

definition empty_form :: form where
  "empty_form =
     \<lparr>plataforma_var = [], modulo_var = [], setor_var = [], tipo_equipamento_var = [],
      tag_var = [], defeito_var = [], causa_var = [], categoria_rti_var = [],
      recomendacao_var = [], ultima_var = [], data_var = ''2025-03-11'', tipo_dano_var = [],
      observacoes_var = [], observacoes_text = [], current_photo_path = PNone\<rparr>"

text \<open>A second field set, for another piece of equipment and without a photo.\<close>

definition example_fields_other :: pydict where
  "example_fields_other = example_fields(''tag'' \<mapsto> PStr ''TQ-002'')"

text \<open>The photo directory holding the photo of the record, removable.\<close>

definition photo_directory :: filesystem where
  "photo_directory = \<lparr>files = {''fotos/a.jpg''}, undeletable = {}\<rparr>"

text \<open>The form with only its first three fields filled.\<close>

definition partly_filled_form :: form where
  "partly_filled_form =
     empty_form\<lparr>plataforma_var := ''P-1'', modulo_var := ''M01'', setor_var := '' ''\<rparr>"

text \<open>
  The database of the record with a photo whose change log holds one row, of a record that
  is not stored.
\<close>

definition orphan_log_database :: database where
  "orphan_log_database =
     one_photo_database
       \<lparr>historico_alteracoes :=
          [\<lparr>log_id = 1, inspecao_id = 7, campo = ''tag'', valor_anterior = ''TQ-007'',
            valor_novo = ''TQ-070'', data_alteracao = ''2025-03-10 09:00:00''\<rparr>],
        seq_historico := 1\<rparr>"

section \<open>Properties of the calendar\<close>

lemma div_decomp:
  fixes q r c :: int
  assumes "0 \<le> r" "r < c"
  shows "(c * q + r) div c = q"
  using assms by (simp add: div_pos_pos_trivial)

lemma is_leap_decomp:
  assumes "0 \<le> n100" "n100 \<le> 3" "0 \<le> n4" "n4 \<le> 24" "0 \<le> n1" "n1 \<le> 3"
  shows "is_leap (n400 * 400 + 1 + n100 * 100 + n4 * 4 + n1)
         = (n1 = 3 \<and> (n4 \<noteq> 24 \<or> n100 = 3))"
proof -
  let ?y = "n400 * 400 + 1 + n100 * 100 + n4 * 4 + n1"
  have e4: "?y = 4 * (100 * n400 + 25 * n100 + n4) + (n1 + 1)" by simp
  have e100: "?y = 100 * (4 * n400 + n100) + (4 * n4 + n1 + 1)" by simp
  have e400: "?y = 400 * n400 + (100 * n100 + 4 * n4 + n1 + 1)" by simp
  have m4: "?y mod 4 = (n1 + 1) mod 4" unfolding e4 by (rule mod_mult_self4)
  have m100: "?y mod 100 = (4 * n4 + n1 + 1) mod 100" unfolding e100 by (rule mod_mult_self4)
  have m400: "?y mod 400 = (100 * n100 + 4 * n4 + n1 + 1) mod 400" unfolding e400 by (rule mod_mult_self4)
  have a4: "((n1 + 1) mod 4 = 0) = (n1 = 3)" using assms(5,6) by presburger
  have a100: "((4 * n4 + n1 + 1) mod 100 = 0) = (n4 = 24 \<and> n1 = 3)"
  proof (cases "4 * n4 + n1 + 1 < 100")
    case True
    then have "(4 * n4 + n1 + 1) mod 100 = 4 * n4 + n1 + 1" using assms by simp
    then show ?thesis using assms True by auto
  next
    case False
    then have "4 * n4 + n1 + 1 = 100" using assms by linarith
    then have "n4 = 24 \<and> n1 = 3" using assms by arith
    then show ?thesis by simp
  qed
  have a400: "((100 * n100 + 4 * n4 + n1 + 1) mod 400 = 0) = (n100 = 3 \<and> n4 = 24 \<and> n1 = 3)"
  proof (cases "100 * n100 + 4 * n4 + n1 + 1 < 400")
    case True
    then have "(100 * n100 + 4 * n4 + n1 + 1) mod 400 = 100 * n100 + 4 * n4 + n1 + 1" using assms by simp
    then show ?thesis using assms True by auto
  next
    case False
    then have "100 * n100 + 4 * n4 + n1 + 1 = 400" using assms by linarith
    then have "n100 = 3 \<and> n4 = 24 \<and> n1 = 3" using assms by arith
    then show ?thesis by simp
  qed
  show ?thesis unfolding is_leap_def m4 m100 m400 a4 a100 a400 by auto
qed


lemma dby_decomp:
  assumes "0 \<le> n100" "n100 \<le> 3" "0 \<le> n4" "n4 \<le> 24" "0 \<le> n1" "n1 \<le> 3"
  shows "days_before_year (n400 * 400 + 1 + n100 * 100 + n4 * 4 + n1)
         = 146097 * n400 + 36524 * n100 + 1461 * n4 + 365 * n1"
proof -
  let ?y = "n400 * 400 + n100 * 100 + n4 * 4 + n1"
  have d4: "?y div 4 = 100 * n400 + 25 * n100 + n4"
    using div_decomp[of n1 4 "100 * n400 + 25 * n100 + n4"] assms by (simp add: algebra_simps)
  have d100: "?y div 100 = 4 * n400 + n100"
    using div_decomp[of "n4 * 4 + n1" 100 "4 * n400 + n100"] assms by (simp add: algebra_simps)
  have d400: "?y div 400 = n400"
    using div_decomp[of "n100 * 100 + n4 * 4 + n1" 400 "n400"] assms by (simp add: algebra_simps)
  have e: "n400 * 400 + 1 + n100 * 100 + n4 * 4 + n1 - 1 = ?y" by simp
  show ?thesis unfolding days_before_year_def e d4 d100 d400 by (simp add: algebra_simps)
qed

lemma month_cases:
  fixes m :: int
  assumes "1 \<le> m" "m \<le> 12"
  shows "m = 1 \<or> m = 2 \<or> m = 3 \<or> m = 4 \<or> m = 5 \<or> m = 6 \<or> m = 7
    \<or> m = 8 \<or> m = 9 \<or> m = 10 \<or> m = 11 \<or> m = 12"
  using assms by presburger


text \<open>
  The estimate \<open>(r + 50) div 32\<close> of the month from the day \<open>r\<close> of the year (counted
  from 0) is the month or the month after it; after the correction the month \<open>m'\<close> is the
  one whose days contain \<open>r\<close>, and \<open>p'\<close> is the number of days before it.
\<close>

lemma month_estimate:
  fixes r :: int and L :: bool
  assumes "0 \<le> r" "r < 365"
  defines "m \<equiv> (r + 50) div 32"
  defines "p \<equiv> DAYS_BEFORE_MONTH m + (if m > 2 \<and> L then 1 else 0)"
  defines "m' \<equiv> (if p > r then m - 1 else m)"
  defines "p' \<equiv> (if p > r then p - (DAYS_IN_MONTH (m - 1) + (if m - 1 = 2 \<and> L then 1 else 0)) else p)"
  shows "1 \<le> m' \<and> m' \<le> 12 \<and> p' = DAYS_BEFORE_MONTH m' + (if m' > 2 \<and> L then 1 else 0)
         \<and> p' \<le> r \<and> (r < p' + DAYS_IN_MONTH m' + (if m' = 2 \<and> L then 1 else 0))"
proof -
  have b: "32 * m \<le> r + 50" "r + 50 < 32 * m + 32"
    unfolding m_def by presburger+
  then have "1 \<le> m" "m \<le> 12" using assms(1,2) by linarith+
  then have "m = 1 \<or> m = 2 \<or> m = 3 \<or> m = 4 \<or> m = 5 \<or> m = 6 \<or> m = 7
    \<or> m = 8 \<or> m = 9 \<or> m = 10 \<or> m = 11 \<or> m = 12" by (rule month_cases)
  then show ?thesis using b assms(1,2) unfolding m'_def p'_def p_def
    by (elim disjE) (simp_all add: DAYS_BEFORE_MONTH_def DAYS_IN_MONTH_def)
qed

lemma ord2ymd_props:
  assumes "1 \<le> n"
  shows "1 \<le> year (ord2ymd n) \<and> 1 \<le> month (ord2ymd n) \<and> month (ord2ymd n) \<le> 12
         \<and> 1 \<le> day (ord2ymd n)
         \<and> day (ord2ymd n) \<le> days_in_month (year (ord2ymd n)) (month (ord2ymd n))
         \<and> toordinal (ord2ymd n) = n"
proof -
  define n0 where "n0 = n - 1"
  define n400 where "n400 = n0 div 146097"
  define r1 where "r1 = n0 mod 146097"
  define n100 where "n100 = r1 div 36524"
  define r2 where "r2 = r1 mod 36524"
  define n4 where "n4 = r2 div 1461"
  define r3 where "r3 = r2 mod 1461"
  define n1 where "n1 = r3 div 365"
  define r4 where "r4 = r3 mod 365"
  define L where "L = (n1 = 3 \<and> (n4 \<noteq> 24 \<or> n100 = 3))"
  define m where "m = (r4 + 50) div 32"
  define p where "p = DAYS_BEFORE_MONTH m + (if m > 2 \<and> L then 1 else 0)"
  define m' where "m' = (if p > r4 then m - 1 else m)"
  define p' where "p' = (if p > r4 then p - (DAYS_IN_MONTH (m - 1) + (if m - 1 = 2 \<and> L then 1 else 0)) else p)"
  define y where "y = n400 * 400 + 1 + n100 * 100 + n4 * 4 + n1"
  have eq0: "ord2ymd n = (if n1 = 4 \<or> n100 = 4 then \<lparr>year = y - 1, month = 12, day = 31\<rparr>
            else if p > r4
              then \<lparr>year = y, month = m - 1,
                    day = r4 - (p - (DAYS_IN_MONTH (m - 1) + (if m - 1 = 2 \<and> L then 1 else 0))) + 1\<rparr>
              else \<lparr>year = y, month = m, day = r4 - p + 1\<rparr>)"
    unfolding ord2ymd_def Let_def y_def p_def m_def L_def r4_def n1_def r3_def
      n4_def r2_def n100_def r1_def n400_def n0_def
    by (rule refl)
  have eq: "ord2ymd n = (if n1 = 4 \<or> n100 = 4 then \<lparr>year = y - 1, month = 12, day = 31\<rparr>
                         else \<lparr>year = y, month = m', day = r4 - p' + 1\<rparr>)"
    unfolding eq0 m'_def p'_def by simp
  have n0: "0 \<le> n0" using assms by (simp add: n0_def)
  have s1: "n0 = 146097 * n400 + r1" "0 \<le> r1" "r1 < 146097"
    unfolding n400_def r1_def by simp_all
  have s2: "r1 = 36524 * n100 + r2" "0 \<le> r2" "r2 < 36524"
    unfolding n100_def r2_def by simp_all
  have s3: "r2 = 1461 * n4 + r3" "0 \<le> r3" "r3 < 1461"
    unfolding n4_def r3_def by simp_all
  have s4: "r3 = 365 * n1 + r4" "0 \<le> r4" "r4 < 365"
    unfolding n1_def r4_def by simp_all
  have b400: "0 \<le> n400" using n0 unfolding n400_def by (simp add: pos_imp_zdiv_nonneg_iff)
  have b100: "0 \<le> n100" "n100 \<le> 4" using s2 s1(2,3) by linarith+
  have b4: "0 \<le> n4" "n4 \<le> 24" using s3 s2(2,3) by linarith+
  have b1: "0 \<le> n1" "n1 \<le> 4" using s4 s3(2,3) by linarith+
  have nn: "n = n0 + 1" by (simp add: n0_def)
  show ?thesis
  proof (cases "n100 = 4")
    case True
    then have z: "r2 = 0" "n4 = 0" "r3 = 0" "n1 = 0" "r4 = 0"
      using s1 s2 s3 s4 b4 b1 by linarith+
    have yy: "y - 1 = n400 * 400 + 1 + 3 * 100 + 24 * 4 + 3" using True z by (simp add: y_def)
    have d: "days_before_year (y - 1) = 146097 * n400 + 145731"
      unfolding yy by (subst dby_decomp) simp_all
    have l: "is_leap (y - 1)" unfolding yy by (subst is_leap_decomp) simp_all
    have y1: "1 \<le> y - 1" using b400 unfolding yy by simp
    have e: "ord2ymd n = \<lparr>year = y - 1, month = 12, day = 31\<rparr>"
      using True by (simp add: eq)
    have nv: "n = 146097 * n400 + 146097" using True z s1 s2 nn by linarith
    have t0: "toordinal \<lparr>year = y - 1, month = 12, day = 31\<rparr> = 146097 * n400 + 146097"
      using d l by (simp add: toordinal_def ymd2ord_def days_before_month_def DAYS_BEFORE_MONTH_def)
    have t: "toordinal (ord2ymd n) = n"
      unfolding e t0 by (rule nv[symmetric])
    show ?thesis unfolding t unfolding e using y1 l
      by (simp add: days_in_month_def DAYS_IN_MONTH_def)
  next
    case n100: False
    then have b100': "n100 \<le> 3" using b100 by simp
    show ?thesis
    proof (cases "n1 = 4")
      case True
      then have z: "r4 = 0" "n4 \<le> 23" using s2 s3 s4 b4 by linarith+
      have yy: "y - 1 = n400 * 400 + 1 + n100 * 100 + n4 * 4 + 3" using True by (simp add: y_def)
      have d: "days_before_year (y - 1) = 146097 * n400 + 36524 * n100 + 1461 * n4 + 1095"
        unfolding yy using b100 b100' b4 z by (subst dby_decomp) simp_all
      have l: "is_leap (y - 1)" unfolding yy using b100 b100' b4 z by (subst is_leap_decomp) simp_all
      have y1: "1 \<le> y - 1" using b400 b100 b4 unfolding yy by simp
      have e: "ord2ymd n = \<lparr>year = y - 1, month = 12, day = 31\<rparr>"
        using True by (simp add: eq)
      have nv: "n = 146097 * n400 + 36524 * n100 + 1461 * n4 + 1461"
        using True z s1 s2 s3 s4 nn by linarith
      have t0: "toordinal \<lparr>year = y - 1, month = 12, day = 31\<rparr>
                  = 146097 * n400 + 36524 * n100 + 1461 * n4 + 1461"
        using d l by (simp add: toordinal_def ymd2ord_def days_before_month_def DAYS_BEFORE_MONTH_def)
      have t: "toordinal (ord2ymd n) = n"
        unfolding e t0 by (rule nv[symmetric])
      show ?thesis unfolding t unfolding e using y1 l
        by (simp add: days_in_month_def DAYS_IN_MONTH_def)
    next
      case False
      then have b1': "n1 \<le> 3" using b1 by simp
      have d: "days_before_year y = 146097 * n400 + 36524 * n100 + 1461 * n4 + 365 * n1"
        unfolding y_def using b100 b100' b4 b1 b1' by (rule_tac dby_decomp) simp_all
      have l: "is_leap y = L"
        unfolding y_def L_def using b100 b100' b4 b1 b1' by (rule_tac is_leap_decomp) simp_all
      have y1: "1 \<le> y" using b400 b100 b4 b1 unfolding y_def by simp
      have me: "1 \<le> m' \<and> m' \<le> 12 \<and> p' = DAYS_BEFORE_MONTH m' + (if m' > 2 \<and> L then 1 else 0)
         \<and> p' \<le> r4 \<and> r4 < p' + DAYS_IN_MONTH m' + (if m' = 2 \<and> L then 1 else 0)"
        unfolding m'_def p'_def p_def m_def using s4(2,3) by (rule month_estimate)
      have dim: "days_in_month y m' = DAYS_IN_MONTH m' + (if m' = 2 \<and> L then 1 else 0)"
        unfolding days_in_month_def l by (simp add: DAYS_IN_MONTH_def)
      have dbm: "days_before_month y m' = p'"
        unfolding days_before_month_def l using me by simp
      have e: "ord2ymd n = \<lparr>year = y, month = m', day = r4 - p' + 1\<rparr>"
        using False n100 by (simp add: eq)
      have nv: "n = 146097 * n400 + 36524 * n100 + 1461 * n4 + 365 * n1 + r4 + 1"
        using s1 s2 s3 s4 nn by linarith
      have t0: "toordinal \<lparr>year = y, month = m', day = r4 - p' + 1\<rparr>
                  = 146097 * n400 + 36524 * n100 + 1461 * n4 + 365 * n1 + r4 + 1"
        using d dbm by (simp add: toordinal_def ymd2ord_def)
      have t: "toordinal (ord2ymd n) = n"
        unfolding e t0 by (rule nv[symmetric])
      have v: "1 \<le> r4 - p' + 1" "r4 - p' + 1 \<le> days_in_month y m'"
        using me dim by linarith+
      show ?thesis unfolding t unfolding e using me v y1 by simp
    qed
  qed
qed


lemma div_step:
  fixes y c :: int
  assumes "0 < c"
  shows "y div c = (y - 1) div c + (if y mod c = 0 then 1 else 0)"
proof (cases "y mod c = 0")
  case True
  have y: "y = c * (y div c) + y mod c" by simp
  have "y - 1 = c * (y div c - 1) + (c - 1)"
    using True y by (simp add: algebra_simps)
  then have "(y - 1) div c = (c * (y div c - 1) + (c - 1)) div c" by (rule arg_cong)
  also have "\<dots> = y div c - 1" using assms by (intro div_decomp) simp_all
  finally show ?thesis using True by simp
next
  case False
  have m: "0 \<le> y mod c" "y mod c < c" using assms by simp_all
  then have m': "0 \<le> y mod c - 1" "y mod c - 1 < c" using False by linarith+
  have "y - 1 = c * (y div c) + (y mod c - 1)" by simp
  then have "(y - 1) div c = (c * (y div c) + (y mod c - 1)) div c" by (rule arg_cong)
  also have "\<dots> = y div c" using m' by (rule div_decomp)
  finally show ?thesis using False by simp
qed

lemma dby_step:
  "days_before_year (y + 1) = days_before_year y + 365 + (if is_leap y then 1 else 0)"
proof -
  have a: "y div 4 = (y - 1) div 4 + (if y mod 4 = 0 then 1 else 0)" by (rule div_step) simp
  have b: "y div 100 = (y - 1) div 100 + (if y mod 100 = 0 then 1 else 0)" by (rule div_step) simp
  have c: "y div 400 = (y - 1) div 400 + (if y mod 400 = 0 then 1 else 0)" by (rule div_step) simp
  have d: "y mod 4 = 0" if "y mod 100 = 0"
  proof -
    have "(100::int) dvd y" using that by (simp add: mod_eq_0_iff_dvd)
    moreover have "(4::int) dvd 100" by simp
    ultimately have "4 dvd y" by (rule_tac dvd_trans)
    then show ?thesis by (simp add: mod_eq_0_iff_dvd)
  qed
  have e: "y mod 100 = 0" if "y mod 400 = 0"
  proof -
    have "(400::int) dvd y" using that by (simp add: mod_eq_0_iff_dvd)
    moreover have "(100::int) dvd 400" by simp
    ultimately have "100 dvd y" by (rule_tac dvd_trans)
    then show ?thesis by (simp add: mod_eq_0_iff_dvd)
  qed
  have s: "y + 1 - 1 = y" by simp
  define A where "A = (y - 1) div 4"
  define B where "B = (y - 1) div 100"
  define C where "C = (y - 1) div 400"
  define P where "P = (y mod 4 = 0)"
  define Q where "Q = (y mod 100 = 0)"
  define R where "R = (y mod 400 = 0)"
  have QP: "Q \<Longrightarrow> P" and RQ: "R \<Longrightarrow> Q" using d e by (simp_all add: P_def Q_def R_def)
  have a': "y div 4 = A + (if P then 1 else 0)" using a by (simp add: A_def P_def)
  have b': "y div 100 = B + (if Q then 1 else 0)" using b by (simp add: B_def Q_def)
  have c': "y div 400 = C + (if R then 1 else 0)" using c by (simp add: C_def R_def)
  have l: "is_leap y = (P \<and> (\<not> Q \<or> R))" by (simp add: is_leap_def P_def Q_def R_def)
  have "y * 365 + y div 4 - y div 100 + y div 400
        = (y - 1) * 365 + A - B + C + 365 + (if is_leap y then 1 else 0)"
    unfolding a' b' c' l using QP RQ by (cases P; cases Q; cases R) (simp_all add: algebra_simps)
  then show ?thesis unfolding days_before_year_def s A_def B_def C_def .
qed

lemma dby_mono_step: "y \<le> y' \<Longrightarrow> days_before_year y \<le> days_before_year y'"
proof (induction y' rule: int_ge_induct)
  case base
  show ?case by simp
next
  case (step i)
  then show ?case using dby_step[of i] by (simp split: if_splits)
qed

lemma dby_mono_strict:
  assumes "y < y'"
  shows "days_before_year y + 365 + (if is_leap y then 1 else 0) \<le> days_before_year y'"
proof -
  have "days_before_year (y + 1) \<le> days_before_year y'"
    using assms by (intro dby_mono_step) simp
  then show ?thesis by (simp add: dby_step)
qed

lemma dbm_succ:
  assumes "1 \<le> m" "m \<le> 11"
  shows "days_before_month y (m + 1) = days_before_month y m + days_in_month y m"
proof -
  have "m = 1 \<or> m = 2 \<or> m = 3 \<or> m = 4 \<or> m = 5 \<or> m = 6 \<or> m = 7
    \<or> m = 8 \<or> m = 9 \<or> m = 10 \<or> m = 11" using assms by presburger
  then show ?thesis
    by (elim disjE)
       (simp_all add: days_before_month_def days_in_month_def DAYS_BEFORE_MONTH_def DAYS_IN_MONTH_def)
qed

lemma dim_pos: "1 \<le> m \<Longrightarrow> m \<le> 12 \<Longrightarrow> 28 \<le> days_in_month y m"
  by (simp add: days_in_month_def DAYS_IN_MONTH_def)

lemma dbm_mono:
  assumes "1 \<le> m" "m < m'" "m' \<le> 12"
  shows "days_before_month y m + days_in_month y m \<le> days_before_month y m'"
proof -
  have "m + 1 \<le> m'" using assms by simp
  then show ?thesis using assms(1,3)
  proof (induction m' rule: int_ge_induct)
    case base
    then show ?case by (simp add: dbm_succ)
  next
    case (step i)
    then have "days_before_month y (i + 1) = days_before_month y i + days_in_month y i"
      by (intro dbm_succ) simp_all
    moreover have "0 \<le> days_in_month y i" using dim_pos[of i y] step by simp
    ultimately show ?case using step by simp
  qed
qed

lemma dbm_12: "days_before_month y 12 + days_in_month y 12 = 365 + (if is_leap y then 1 else 0)"
  by (simp add: days_before_month_def days_in_month_def DAYS_BEFORE_MONTH_def DAYS_IN_MONTH_def)

lemma dbm_nonneg: "1 \<le> m \<Longrightarrow> m \<le> 12 \<Longrightarrow> 0 \<le> days_before_month y m"
  by (simp add: days_before_month_def DAYS_BEFORE_MONTH_def)

lemma dbm_upper:
  assumes "1 \<le> m" "m \<le> 12"
  shows "days_before_month y m + days_in_month y m \<le> 365 + (if is_leap y then 1 else 0)"
proof (cases "m = 12")
  case True
  then show ?thesis using dbm_12[of y] by simp
next
  case False
  then have "days_before_month y m + days_in_month y m \<le> days_before_month y 12"
    using assms by (intro dbm_mono) simp_all
  moreover have "0 \<le> days_in_month y 12" by (simp add: days_in_month_def DAYS_IN_MONTH_def)
  ultimately show ?thesis using dbm_12[of y] by linarith
qed

lemma toordinal_bounds:
  assumes "valid_md d"
  shows "days_before_year (year d) < toordinal d"
    and "toordinal d \<le> days_before_year (year d) + 365 + (if is_leap (year d) then 1 else 0)"
proof -
  have a: "0 \<le> days_before_month (year d) (month d)"
    using assms by (simp add: valid_md_def dbm_nonneg)
  have b: "days_before_month (year d) (month d) + days_in_month (year d) (month d)
            \<le> 365 + (if is_leap (year d) then 1 else 0)"
    using assms by (simp add: valid_md_def dbm_upper)
  show "days_before_year (year d) < toordinal d"
    using a assms by (simp add: toordinal_def ymd2ord_def valid_md_def)
  show "toordinal d \<le> days_before_year (year d) + 365 + (if is_leap (year d) then 1 else 0)"
    using b assms unfolding toordinal_def ymd2ord_def valid_md_def by linarith
qed

lemma date_lt_imp_toordinal_less:
  assumes "valid_md a" "valid_md b" "date_lt a b"
  shows "toordinal a < toordinal b"
proof -
  consider "year a < year b" | "year a = year b" "month a < month b"
    | "year a = year b" "month a = month b" "day a < day b"
    using assms(3) unfolding date_lt_def by blast
  then show ?thesis
  proof cases
    case 1
    have "toordinal a \<le> days_before_year (year a) + 365 + (if is_leap (year a) then 1 else 0)"
      using toordinal_bounds(2)[OF assms(1)] .
    also have "\<dots> \<le> days_before_year (year b)" using 1 by (rule dby_mono_strict)
    also have "\<dots> < toordinal b" using toordinal_bounds(1)[OF assms(2)] .
    finally show ?thesis .
  next
    case 2
    have "days_before_month (year a) (month a) + days_in_month (year a) (month a)
            \<le> days_before_month (year a) (month b)"
      using assms(1,2) 2 by (intro dbm_mono) (simp_all add: valid_md_def)
    then show ?thesis using assms(1,2) 2
      unfolding toordinal_def ymd2ord_def valid_md_def by simp
  next
    case 3
    then show ?thesis unfolding toordinal_def ymd2ord_def by simp
  qed
qed

lemma date_lt_iff_toordinal:
  assumes "valid_md a" "valid_md b"
  shows "date_lt a b \<longleftrightarrow> toordinal a < toordinal b"
proof
  assume "date_lt a b"
  then show "toordinal a < toordinal b" using assms by (intro date_lt_imp_toordinal_less)
next
  assume l: "toordinal a < toordinal b"
  show "date_lt a b"
  proof (rule ccontr)
    assume n: "\<not> date_lt a b"
    then consider "date_lt b a" | "year a = year b \<and> month a = month b \<and> day a = day b"
      unfolding date_lt_def by linarith
    then show False
    proof cases
      case 1
      then have "toordinal b < toordinal a" using assms by (intro date_lt_imp_toordinal_less)
      then show False using l by simp
    next
      case 2
      then have "toordinal a = toordinal b" by (simp add: toordinal_def)
      then show False using l by simp
    qed
  qed
qed

section \<open>Properties of the date operations\<close>

lemma valid_date_md: "valid_date d \<Longrightarrow> valid_md d"
  by (simp add: valid_date_def valid_md_def)

lemma dby_1: "days_before_year 1 = 0"
  by (simp add: days_before_year_def)

lemma dby_10000: "days_before_year 10000 = 3652059"
  by (simp add: days_before_year_def)

lemma toordinal_range:
  assumes "valid_date d"
  shows "1 \<le> toordinal d" and "toordinal d \<le> MAXORDINAL"
proof -
  have md: "valid_md d" using assms by (rule valid_date_md)
  have y: "1 \<le> year d" "year d < 10000" using assms by (simp_all add: valid_date_def MINYEAR_def MAXYEAR_def)
  have "days_before_year 1 \<le> days_before_year (year d)" using y(1) by (rule dby_mono_step)
  then show "1 \<le> toordinal d" using toordinal_bounds(1)[OF md] dby_1 by linarith
  have "days_before_year (year d) + 365 + (if is_leap (year d) then 1 else 0) \<le> days_before_year 10000"
    using y(2) by (rule dby_mono_strict)
  then show "toordinal d \<le> MAXORDINAL"
    using toordinal_bounds(2)[OF md] dby_10000 unfolding MAXORDINAL_def by linarith
qed

lemma fromordinal_valid:
  assumes "1 \<le> n" "n \<le> MAXORDINAL"
  shows "valid_date (fromordinal n)" and "toordinal (fromordinal n) = n"
proof -
  note p = ord2ymd_props[OF assms(1)]
  show t: "toordinal (fromordinal n) = n" using p by (simp add: fromordinal_def)
  have md: "valid_md (fromordinal n)" using p by (simp add: fromordinal_def valid_md_def)
  have "year (fromordinal n) < 10000"
  proof (rule ccontr)
    assume "\<not> year (fromordinal n) < 10000"
    then have "days_before_year 10000 \<le> days_before_year (year (fromordinal n))"
      by (intro dby_mono_step) simp
    then show False using toordinal_bounds(1)[OF md] t assms(2) dby_10000
      unfolding MAXORDINAL_def by linarith
  qed
  then show "valid_date (fromordinal n)"
    using p by (simp add: fromordinal_def valid_date_def MINYEAR_def MAXYEAR_def)
qed

lemma date_gt_iff_toordinal:
  assumes "valid_date a" "valid_date b"
  shows "date_gt a b \<longleftrightarrow> toordinal b < toordinal a"
  unfolding date_gt_def using assms by (intro date_lt_iff_toordinal valid_date_md)

lemma strptime_Inl: "strptime s = Inl e \<Longrightarrow> e = ValueError"
  by (auto simp: strptime_def split: option.splits prod.splits if_splits)

lemma strptime_Inr: "strptime s = Inr d \<Longrightarrow> valid_date d"
  by (auto simp: strptime_def valid_date_def split: option.splits prod.splits if_splits)

lemma strptime_Nil: "strptime [] = Inl ValueError"
  by (simp add: strptime_def match_format_def)

lemma date_plus_days_Inr:
  assumes "valid_date d" "date_plus_days d n = Inr d'"
  shows "valid_date d'" and "toordinal d' = toordinal d + n"
proof -
  have r: "0 < toordinal d + n" "toordinal d + n \<le> MAXORDINAL" and e: "d' = fromordinal (toordinal d + n)"
    using assms(2) by (auto simp: date_plus_days_def timedelta_def date_add_def Let_def split: if_splits)
  from r(1) have r1: "1 \<le> toordinal d + n" by simp
  show "valid_date d'" unfolding e using r1 r(2) by (rule fromordinal_valid)
  show "toordinal d' = toordinal d + n" unfolding e using r1 r(2) by (rule fromordinal_valid)
qed

lemma date_plus_days_Inl: "date_plus_days d n = Inl e \<Longrightarrow> e = OverflowError"
  by (auto simp: date_plus_days_def timedelta_def date_add_def Let_def split: if_splits)

lemma date_plus_days_in_range:
  assumes "valid_date d" "0 < toordinal d + n" "toordinal d + n \<le> MAXORDINAL"
  shows "date_plus_days d n = Inr (fromordinal (toordinal d + n))"
proof -
  have "1 \<le> toordinal d" "toordinal d \<le> MAXORDINAL" using assms(1) by (rule toordinal_range)+
  then have "- 999999999 \<le> n \<and> n \<le> 999999999" using assms(2,3) unfolding MAXORDINAL_def by linarith
  then show ?thesis using assms(2,3)
    by (simp add: date_plus_days_def timedelta_def date_add_def Let_def)
qed

lemma status_split:
  assumes "last_inspection \<noteq> []" "strptime last_inspection = Inr ld"
    "date_plus_days ld (m * 30) = Inr nd"
  shows "get_inspection_status pads today last_inspection m =
     Inr \<lparr>status = (if days_between nd today < 0 then ''overdue''
                  else if days_between nd today \<le> 30 then ''warning''
                  else if days_between nd today \<le> 90 then ''attention'' else ''ok''),
          status_message = (if days_between nd today < 0 then Inspecao_vencida
                  else if days_between nd today \<le> 30 then Inspecao_vence_em_breve
                  else if days_between nd today \<le> 90 then Inspecao_vence_em_alguns_meses
                  else Inspecao_em_dia),
          status_is_overdue = (days_between nd today < 0),
          days_until_due = days_between nd today,
          next_inspection_date = strftime_ymd pads nd,
          next_inspection_formatted = Some (strftime_dmy pads nd),
          last_inspection_formatted = strftime_dmy pads ld,
          last_inspection_date = Some last_inspection\<rparr>"
  using assms by (simp add: get_inspection_status_def except_ValueError_def Let_def)

lemma except_ValueError_returns:
  "except_ValueError body (Inr h) \<noteq> Inl ValueError"
  by (cases body) (auto simp: except_ValueError_def split: py_exception.splits)

lemma is_overdue_cases:
  "is_overdue today s m =
     (if s = [] then Inr False
      else case strptime s of Inl e \<Rightarrow> Inr False
        | Inr ld \<Rightarrow> (case date_plus_days ld (m * 30) of Inl e \<Rightarrow> Inl OverflowError
                     | Inr nd \<Rightarrow> Inr (date_gt today nd)))"
  by (auto simp: is_overdue_def except_ValueError_def split: sum.splits py_exception.splits
        dest: strptime_Inl date_plus_days_Inl)

lemma get_days_until_due_cases:
  "get_days_until_due today s m =
     (if s = [] then Inr 0
      else case strptime s of Inl e \<Rightarrow> Inr 0
        | Inr ld \<Rightarrow> (case date_plus_days ld (m * 30) of Inl e \<Rightarrow> Inl OverflowError
                     | Inr nd \<Rightarrow> Inr (days_between nd today)))"
  by (auto simp: get_days_until_due_def except_ValueError_def split: sum.splits py_exception.splits
        dest: strptime_Inl date_plus_days_Inl)

text \<open>
  Formatting a valid date with \<open>%Y-%m-%d\<close> and parsing the text again gives the date
  back, when the year is written with four digits.
\<close>

lemma digit_of_digit_char:
  assumes "0 \<le> k" "k \<le> 9"
  shows "digit_of (digit_char k) = Some k"
proof -
  have "k = 0 \<or> k = 1 \<or> k = 2 \<or> k = 3 \<or> k = 4 \<or> k = 5 \<or> k = 6 \<or> k = 7 \<or> k = 8 \<or> k = 9"
    using assms by presburger
  then show ?thesis
    by (elim disjE) (simp_all add: digit_of_def digit_char_def)
qed

lemma match_m_pad2:
  assumes "1 \<le> m" "m \<le> 12"
  shows "\<exists>alts. match_m (pad2 m @ rest) = (m, rest) # alts"
proof -
  have "m = 1 \<or> m = 2 \<or> m = 3 \<or> m = 4 \<or> m = 5 \<or> m = 6 \<or> m = 7
    \<or> m = 8 \<or> m = 9 \<or> m = 10 \<or> m = 11 \<or> m = 12" using assms by (rule month_cases)
  then show ?thesis
    by (elim disjE) (simp_all add: match_m_def pad2_def digit_of_def digit_char_def)
qed

lemma day_cases:
  fixes d :: int
  assumes "1 \<le> d" "d \<le> 31"
  shows "d = 1 \<or> d = 2 \<or> d = 3 \<or> d = 4 \<or> d = 5 \<or> d = 6 \<or> d = 7 \<or> d = 8 \<or> d = 9 \<or> d = 10
    \<or> d = 11 \<or> d = 12 \<or> d = 13 \<or> d = 14 \<or> d = 15 \<or> d = 16 \<or> d = 17 \<or> d = 18 \<or> d = 19
    \<or> d = 20 \<or> d = 21 \<or> d = 22 \<or> d = 23 \<or> d = 24 \<or> d = 25 \<or> d = 26 \<or> d = 27 \<or> d = 28
    \<or> d = 29 \<or> d = 30 \<or> d = 31"
  using assms by presburger

lemma hd_match_d_pad2:
  assumes "1 \<le> d" "d \<le> 31"
  shows "\<exists>alts. match_d (pad2 d) = (d, []) # alts"
  using day_cases[OF assms]
  by (elim disjE) (simp_all add: match_d_def pad2_def digit_of_def digit_char_def)


lemma decimal_digits:
  fixes y :: int
  assumes "0 \<le> y" "y \<le> 9999"
  shows "1000 * (y div 1000 mod 10) + 100 * (y div 100 mod 10) + 10 * (y div 10 mod 10) + y mod 10 = y"
proof -
  have e1: "y div 10 div 10 = y div 100"
    using zdiv_zmult2_eq[of 10 y 10] by simp
  have e2: "y div 100 div 10 = y div 1000"
    using zdiv_zmult2_eq[of 10 y 100] by simp
  have s0: "10 * (y div 10) + y mod 10 = y" by (rule mult_div_mod_eq)
  have s1: "10 * (y div 100) + y div 10 mod 10 = y div 10"
    using mult_div_mod_eq[of 10 "y div 10"] unfolding e1 .
  have s2: "10 * (y div 1000) + y div 100 mod 10 = y div 100"
    using mult_div_mod_eq[of 10 "y div 100"] unfolding e2 .
  have "y div 1000 \<le> 9999 div 1000" using assms(2) by (intro zdiv_mono1) simp_all
  moreover have "0 \<le> y div 1000" using assms(1) by (simp add: pos_imp_zdiv_nonneg_iff)
  ultimately have a: "y div 1000 mod 10 = y div 1000" by simp
  show ?thesis unfolding a using s0 s1 s2 by linarith
qed

lemma match_Y_pad4:
  assumes "0 \<le> y" "y \<le> 9999"
  shows "match_Y (pad4 y @ rest) = Some (y, rest)"
proof -
  have r: "0 \<le> y div 1000 mod 10" "y div 1000 mod 10 \<le> 9" "0 \<le> y div 100 mod 10" "y div 100 mod 10 \<le> 9"
    "0 \<le> y div 10 mod 10" "y div 10 mod 10 \<le> 9" "0 \<le> y mod 10" "y mod 10 \<le> 9"
    by simp_all
  have "match_Y (pad4 y @ rest) =
          Some (1000 * (y div 1000 mod 10) + 100 * (y div 100 mod 10) + 10 * (y div 10 mod 10)
                + y mod 10, rest)"
    by (simp add: pad4_def digit_of_digit_char r)
  then show ?thesis unfolding decimal_digits[OF assms] .
qed

lemma strptime_strftime_ymd:
  assumes "valid_date d" "pads \<or> 1000 \<le> year d"
  shows "strptime (strftime_ymd pads d) = Inr d"
proof -
  have y: "0 \<le> year d" "year d \<le> 9999" and m: "1 \<le> month d" "month d \<le> 12"
    and dd: "1 \<le> day d" "day d \<le> 31"
    using assms(1)
    by (auto simp: valid_date_def MINYEAR_def MAXYEAR_def days_in_month_def DAYS_IN_MONTH_def
          split: if_splits)
  have yt: "year_text pads (year d) = pad4 (year d)" using assms(2) by (auto simp: year_text_def)
  obtain alts where a: "match_d (pad2 (day d)) = (day d, []) # alts"
    using hd_match_d_pad2[OF dd] by blast
  obtain alts' where b: "match_m (pad2 (month d) @ ''-'' @ pad2 (day d))
                           = (month d, ''-'' @ pad2 (day d)) # alts'"
    using match_m_pad2[OF m] by blast
  have c: "match_Y (pad4 (year d) @ ''-'' @ pad2 (month d) @ ''-'' @ pad2 (day d))
             = Some (year d, ''-'' @ pad2 (month d) @ ''-'' @ pad2 (day d))"
    using y by (rule match_Y_pad4)
  have "match_format (strftime_ymd pads d) = Some (year d, month d, day d, [])"
    unfolding strftime_ymd_def yt match_format_def c using a b by simp
  then show ?thesis using assms(1) by (simp add: strptime_def valid_date_def)
qed

text \<open>
  The parser accepts every text of the form \<open>YYYY-MM-DD\<close> that is a date.
\<close>

lemma digit_of_range: "digit_of c = Some k \<Longrightarrow> 0 \<le> k \<and> k \<le> 9"
  by (auto simp: digit_of_def Let_def split: if_splits)

lemma list10:
  assumes "length s = 10"
  obtains a b c d e f g h i j where "s = [a, b, c, d, e, f, g, h, i, j]"
proof -
  from assms obtain a b c d e f g h i j where "s = [a, b, c, d, e, f, g, h, i, j]"
    by (auto simp: length_Suc_conv numeral_eq_Suc)
  then show ?thesis by (rule that)
qed

lemma match_m_two_digits:
  assumes "digit_of e = Some x" "digit_of f = Some y" "1 \<le> 10 * x + y" "10 * x + y \<le> 12"
  shows "\<exists>alts. match_m (e # f # rest) = (10 * x + y, rest) # alts"
proof -
  have r: "0 \<le> x" "x \<le> 9" "0 \<le> y" "y \<le> 9" using assms(1,2) digit_of_range by blast+
  then have "x = 0 \<and> 1 \<le> y \<or> x = 1 \<and> y \<le> 2" using assms(3,4) by arith
  then show ?thesis using assms(1,2) r by (auto simp: match_m_def)
qed

lemma match_d_two_digits:
  assumes "digit_of g = Some x" "digit_of h = Some y" "1 \<le> 10 * x + y" "10 * x + y \<le> 31"
  shows "\<exists>alts. match_d [g, h] = (10 * x + y, []) # alts"
proof -
  have r: "0 \<le> x" "x \<le> 9" "0 \<le> y" "y \<le> 9" using assms(1,2) digit_of_range by blast+
  then have "x = 0 \<and> 1 \<le> y \<or> x = 1 \<or> x = 2 \<or> x = 3 \<and> y \<le> 1" using assms(3,4) by arith
  then show ?thesis using assms(1,2) r by (auto simp: match_d_def)
qed

lemma dim_le_31: "days_in_month y m \<le> 31"
  by (simp add: days_in_month_def DAYS_IN_MONTH_def)

lemma strptime_well_formed:
  assumes "spec_well_formed_date s"
  shows "\<exists>d. strptime s = Inr d"
proof -
  from assms have l: "length s = 10" by (simp add: spec_well_formed_date_def)
  then obtain a b c d e f g h i j where s: "s = [a, b, c, d, e, f, g, h, i, j]"
    by (rule list10)
  from assms obtain ya yb yc yd me mf dg dh where
    dig: "digit_of a = Some ya" "digit_of b = Some yb" "digit_of c = Some yc"
      "digit_of d = Some yd" "digit_of f = Some me" "digit_of g = Some mf"
      "digit_of i = Some dg" "digit_of j = Some dh"
    and hy: "e = CHR ''-''" "h = CHR ''-''"
    unfolding s spec_well_formed_date_def by auto
  define y where "y = 1000 * ya + 100 * yb + 10 * yc + yd"
  define m where "m = 10 * me + mf"
  define dd where "dd = 10 * dg + dh"
  have v: "MINYEAR \<le> y" "1 \<le> m" "m \<le> 12" "1 \<le> dd" "dd \<le> days_in_month y m"
    using assms dig unfolding s spec_well_formed_date_def y_def m_def dd_def
    by (simp_all add: digit_value_def Let_def)
  have ry: "y \<le> MAXYEAR"
    using digit_of_range[OF dig(1)] digit_of_range[OF dig(2)] digit_of_range[OF dig(3)]
      digit_of_range[OF dig(4)] unfolding y_def MAXYEAR_def by linarith
  have d31: "dd \<le> 31" using v(5) dim_le_31[of y m] by linarith
  obtain alts where am: "match_m (f # g # CHR ''-'' # [i, j]) = (m, CHR ''-'' # [i, j]) # alts"
    using match_m_two_digits[OF dig(5,6), of "CHR ''-'' # [i, j]"] v(2,3) unfolding m_def by blast
  obtain alts' where ad: "match_d [i, j] = (dd, []) # alts'"
    using match_d_two_digits[OF dig(7,8)] v(4) d31 unfolding dd_def by blast
  have "match_format s = Some (y, m, dd, [])"
    unfolding s match_format_def using dig(1-4) hy am ad by (simp add: y_def)
  then show ?thesis using v ry by (simp add: strptime_def)
qed

section \<open>The claims about the dates\<close>

text \<open>
  \<^bold>\<open>Claim C3.\<close> The status of \<open>get_inspection_status\<close> is \<open>unknown\<close> for an empty
  last-inspection date. For a date that parses, with a due date inside the calendar, the
  function returns a status whose \<open>days_until_due\<close> \<open>d\<close> is the ordinal of the last
  inspection plus thirty days per month of validity minus the ordinal of today, and the
  status is \<open>overdue\<close> exactly when \<open>d < 0\<close>, \<open>warning\<close> exactly when
  \<open>0 \<le> d \<le> 30\<close>, \<open>attention\<close> exactly when \<open>31 \<le> d \<le> 90\<close> and \<open>ok\<close>
  exactly when \<open>d > 90\<close>. The witness evaluates the boundaries \<open>-1, 0, 30, 31, 90, 91\<close>.
\<close>

theorem get_inspection_status_classification:
  "(\<exists>r. get_inspection_status pads today [] m = Inr r \<and> status r = ''unknown'') \<and>
   (s \<noteq> [] \<and> strptime s = Inr ld \<and> 0 < toordinal ld + m * 30
      \<and> toordinal ld + m * 30 \<le> MAXORDINAL \<longrightarrow>
    (\<exists>r. get_inspection_status pads today s m = Inr r
       \<and> days_until_due r = toordinal ld + m * 30 - toordinal today
       \<and> (status r = ''overdue'' \<longleftrightarrow> days_until_due r < 0)
       \<and> (status r = ''warning'' \<longleftrightarrow> 0 \<le> days_until_due r \<and> days_until_due r \<le> 30)
       \<and> (status r = ''attention'' \<longleftrightarrow> 31 \<le> days_until_due r \<and> days_until_due r \<le> 90)
       \<and> (status r = ''ok'' \<longleftrightarrow> 90 < days_until_due r)))"
proof (intro conjI impI)
  show "\<exists>r. get_inspection_status pads today [] m = Inr r \<and> status r = ''unknown''"
    by (simp add: get_inspection_status_def except_ValueError_def)
next
  assume a: "s \<noteq> [] \<and> strptime s = Inr ld \<and> 0 < toordinal ld + m * 30
      \<and> toordinal ld + m * 30 \<le> MAXORDINAL"
  then have v: "valid_date ld" using strptime_Inr[of s ld] by simp
  define nd where "nd = fromordinal (toordinal ld + m * 30)"
  have p: "date_plus_days ld (m * 30) = Inr nd"
    unfolding nd_def using v a by (intro date_plus_days_in_range) simp_all
  have t: "toordinal nd = toordinal ld + m * 30"
    using date_plus_days_Inr(2)[OF v p] .
  have d: "days_between nd today = toordinal ld + m * 30 - toordinal today"
    by (simp add: days_between_def t)
  show "\<exists>r. get_inspection_status pads today s m = Inr r
       \<and> days_until_due r = toordinal ld + m * 30 - toordinal today
       \<and> (status r = ''overdue'' \<longleftrightarrow> days_until_due r < 0)
       \<and> (status r = ''warning'' \<longleftrightarrow> 0 \<le> days_until_due r \<and> days_until_due r \<le> 30)
       \<and> (status r = ''attention'' \<longleftrightarrow> 31 \<le> days_until_due r \<and> days_until_due r \<le> 90)
       \<and> (status r = ''ok'' \<longleftrightarrow> 90 < days_until_due r)"
    using a p
    by (subst status_split[where last_inspection = s and ld = ld and m = m and nd = nd])
       (auto simp: d)
qed

theorem get_inspection_status_classification_witness:
  "(\<exists>r. get_inspection_status False \<lparr>year = 2025, month = 3, day = 11\<rparr> ''2024-03-15'' 12 = Inr r
        \<and> days_until_due r = - 1 \<and> status r = ''overdue'') \<and>
   (\<exists>r. get_inspection_status False \<lparr>year = 2025, month = 3, day = 10\<rparr> ''2024-03-15'' 12 = Inr r
        \<and> days_until_due r = 0 \<and> status r = ''warning'') \<and>
   (\<exists>r. get_inspection_status False \<lparr>year = 2025, month = 2, day = 8\<rparr> ''2024-03-15'' 12 = Inr r
        \<and> days_until_due r = 30 \<and> status r = ''warning'') \<and>
   (\<exists>r. get_inspection_status False \<lparr>year = 2025, month = 2, day = 7\<rparr> ''2024-03-15'' 12 = Inr r
        \<and> days_until_due r = 31 \<and> status r = ''attention'') \<and>
   (\<exists>r. get_inspection_status False \<lparr>year = 2024, month = 12, day = 10\<rparr> ''2024-03-15'' 12 = Inr r
        \<and> days_until_due r = 90 \<and> status r = ''attention'') \<and>
   (\<exists>r. get_inspection_status False \<lparr>year = 2024, month = 12, day = 9\<rparr> ''2024-03-15'' 12 = Inr r
        \<and> days_until_due r = 91 \<and> status r = ''ok'')"
proof -
  have h: "''2024-03-15'' \<noteq> [] \<and> strptime ''2024-03-15'' = Inr \<lparr>year = 2024, month = 3, day = 15\<rparr>
      \<and> 0 < toordinal \<lparr>year = 2024, month = 3, day = 15\<rparr> + 12 * 30
      \<and> toordinal \<lparr>year = 2024, month = 3, day = 15\<rparr> + 12 * 30 \<le> MAXORDINAL"
    by code_simp
  have o: "toordinal \<lparr>year = 2024, month = 3, day = 15\<rparr> + 12 * 30 = 739320" by code_simp
  have k: "\<exists>r. get_inspection_status False t ''2024-03-15'' 12 = Inr r
       \<and> days_until_due r = 739320 - toordinal t
       \<and> (status r = ''overdue'' \<longleftrightarrow> days_until_due r < 0)
       \<and> (status r = ''warning'' \<longleftrightarrow> 0 \<le> days_until_due r \<and> days_until_due r \<le> 30)
       \<and> (status r = ''attention'' \<longleftrightarrow> 31 \<le> days_until_due r \<and> days_until_due r \<le> 90)
       \<and> (status r = ''ok'' \<longleftrightarrow> 90 < days_until_due r)" for t
    using get_inspection_status_classification
            [where pads = False and today = t and m = 12 and s = "''2024-03-15''" and ld = "\<lparr>year = 2024, month = 3, day = 15\<rparr>"] h
    unfolding o by blast
  have t0: "toordinal \<lparr>year = 2025, month = 3, day = 11\<rparr> = 739321" by code_simp
  have c0: "\<exists>r. get_inspection_status False \<lparr>year = 2025, month = 3, day = 11\<rparr> ''2024-03-15'' 12 = Inr r
        \<and> days_until_due r = - 1 \<and> status r = ''overdue''"
    using k[of "\<lparr>year = 2025, month = 3, day = 11\<rparr>"] unfolding t0 by auto
  have t1: "toordinal \<lparr>year = 2025, month = 3, day = 10\<rparr> = 739320" by code_simp
  have c1: "\<exists>r. get_inspection_status False \<lparr>year = 2025, month = 3, day = 10\<rparr> ''2024-03-15'' 12 = Inr r
        \<and> days_until_due r = 0 \<and> status r = ''warning''"
    using k[of "\<lparr>year = 2025, month = 3, day = 10\<rparr>"] unfolding t1 by auto
  have t2: "toordinal \<lparr>year = 2025, month = 2, day = 8\<rparr> = 739290" by code_simp
  have c2: "\<exists>r. get_inspection_status False \<lparr>year = 2025, month = 2, day = 8\<rparr> ''2024-03-15'' 12 = Inr r
        \<and> days_until_due r = 30 \<and> status r = ''warning''"
    using k[of "\<lparr>year = 2025, month = 2, day = 8\<rparr>"] unfolding t2 by auto
  have t3: "toordinal \<lparr>year = 2025, month = 2, day = 7\<rparr> = 739289" by code_simp
  have c3: "\<exists>r. get_inspection_status False \<lparr>year = 2025, month = 2, day = 7\<rparr> ''2024-03-15'' 12 = Inr r
        \<and> days_until_due r = 31 \<and> status r = ''attention''"
    using k[of "\<lparr>year = 2025, month = 2, day = 7\<rparr>"] unfolding t3 by auto
  have t4: "toordinal \<lparr>year = 2024, month = 12, day = 10\<rparr> = 739230" by code_simp
  have c4: "\<exists>r. get_inspection_status False \<lparr>year = 2024, month = 12, day = 10\<rparr> ''2024-03-15'' 12 = Inr r
        \<and> days_until_due r = 90 \<and> status r = ''attention''"
    using k[of "\<lparr>year = 2024, month = 12, day = 10\<rparr>"] unfolding t4 by auto
  have t5: "toordinal \<lparr>year = 2024, month = 12, day = 9\<rparr> = 739229" by code_simp
  have c5: "\<exists>r. get_inspection_status False \<lparr>year = 2024, month = 12, day = 9\<rparr> ''2024-03-15'' 12 = Inr r
        \<and> days_until_due r = 91 \<and> status r = ''ok''"
    using k[of "\<lparr>year = 2024, month = 12, day = 9\<rparr>"] unfolding t5 by auto
  show ?thesis using c0 c1 c2 c3 c4 c5 by blast
qed

text \<open>
  \<^bold>\<open>Claim C4.\<close> For every last-inspection date and validity period, evaluated at the
  same (valid) current date, \<open>is_overdue\<close> returns \<open>True\<close> if and only if
  \<open>get_days_until_due\<close> returns a negative number. For a date that parses, with a due
  date inside the calendar, both return, \<open>is_overdue\<close> is \<open>today > last + 30 * months\<close>
  and \<open>get_days_until_due\<close> is \<open>last + 30 * months - today\<close>, counted in days.
\<close>

theorem is_overdue_iff_days_until_due_negative:
  assumes "valid_date today"
  shows "(is_overdue today s m = Inr True
            \<longleftrightarrow> (\<exists>d. get_days_until_due today s m = Inr d \<and> d < 0))
       \<and> (strptime s = Inr ld \<and> 0 < toordinal ld + m * 30
            \<and> toordinal ld + m * 30 \<le> MAXORDINAL \<longrightarrow>
          is_overdue today s m = Inr (toordinal ld + m * 30 < toordinal today)
          \<and> get_days_until_due today s m = Inr (toordinal ld + m * 30 - toordinal today))"
proof (intro conjI impI)
  show "is_overdue today s m = Inr True
            \<longleftrightarrow> (\<exists>d. get_days_until_due today s m = Inr d \<and> d < 0)"
  proof (cases "s = []")
    case True
    then show ?thesis by (simp add: is_overdue_cases get_days_until_due_cases)
  next
    case ne: False
    show ?thesis
    proof (cases "strptime s")
      case (Inl e)
      then show ?thesis using ne by (simp add: is_overdue_cases get_days_until_due_cases)
    next
      case (Inr ld')
      then have v: "valid_date ld'" by (rule strptime_Inr)
      show ?thesis
      proof (cases "date_plus_days ld' (m * 30)")
        case (Inl e)
        then show ?thesis using ne Inr by (simp add: is_overdue_cases get_days_until_due_cases)
      next
        case r: (Inr nd)
        have vn: "valid_date nd" using date_plus_days_Inr(1)[OF v r] .
        have "date_gt today nd \<longleftrightarrow> days_between nd today < 0"
          using date_gt_iff_toordinal[OF assms vn] by (simp add: days_between_def)
        then show ?thesis using ne Inr r by (simp add: is_overdue_cases get_days_until_due_cases)
      qed
    qed
  qed
next
  assume a: "strptime s = Inr ld \<and> 0 < toordinal ld + m * 30
            \<and> toordinal ld + m * 30 \<le> MAXORDINAL"
  then have ne: "s \<noteq> []" using strptime_Nil by auto
  have v: "valid_date ld" using a strptime_Inr[of s ld] by simp
  define nd where "nd = fromordinal (toordinal ld + m * 30)"
  have p: "date_plus_days ld (m * 30) = Inr nd"
    unfolding nd_def using v a by (intro date_plus_days_in_range) simp_all
  have vn: "valid_date nd" and t: "toordinal nd = toordinal ld + m * 30"
    using date_plus_days_Inr[OF v p] by simp_all
  have g: "date_gt today nd \<longleftrightarrow> toordinal ld + m * 30 < toordinal today"
    using date_gt_iff_toordinal[OF assms vn] by (simp add: t)
  show "is_overdue today s m = Inr (toordinal ld + m * 30 < toordinal today)"
    using a ne p g by (simp add: is_overdue_cases)
  show "get_days_until_due today s m = Inr (toordinal ld + m * 30 - toordinal today)"
    using a ne p t by (simp add: get_days_until_due_cases days_between_def)
qed

theorem is_overdue_iff_days_until_due_negative_witness:
  "valid_date \<lparr>year = 2025, month = 3, day = 11\<rparr>
   \<and> strptime ''2024-03-15'' = Inr \<lparr>year = 2024, month = 3, day = 15\<rparr>
   \<and> is_overdue \<lparr>year = 2025, month = 3, day = 11\<rparr> ''2024-03-15'' 12 = Inr True
   \<and> get_days_until_due \<lparr>year = 2025, month = 3, day = 11\<rparr> ''2024-03-15'' 12 = Inr (- 1)"
proof -
  have v: "valid_date \<lparr>year = 2025, month = 3, day = 11\<rparr>" by code_simp
  have h: "strptime ''2024-03-15'' = Inr \<lparr>year = 2024, month = 3, day = 15\<rparr>
      \<and> 0 < toordinal \<lparr>year = 2024, month = 3, day = 15\<rparr> + 12 * 30
      \<and> toordinal \<lparr>year = 2024, month = 3, day = 15\<rparr> + 12 * 30 \<le> MAXORDINAL"
    by code_simp
  have o: "toordinal \<lparr>year = 2024, month = 3, day = 15\<rparr> + 12 * 30 = 739320" by code_simp
  have t: "toordinal \<lparr>year = 2025, month = 3, day = 11\<rparr> = 739321" by code_simp
  show ?thesis
    using is_overdue_iff_days_until_due_negative
            [OF v, where s = "''2024-03-15''" and m = 12 and ld = "\<lparr>year = 2024, month = 3, day = 15\<rparr>"] h v
    unfolding o t by simp
qed

text \<open>
  \<^bold>\<open>Claim C5.\<close> \<open>calculate_next_inspection_date\<close> returns the text of the date whose
  ordinal is exactly \<open>validity_months * 30\<close> days after the last-inspection date (thirty
  days per month, not calendar months), provided that date is inside the calendar; the text
  parses to that date again when its year is written with four digits. For
  \<open>2024-03-15\<close> and twelve months it returns \<open>2025-03-10\<close>.
\<close>

theorem calculate_next_inspection_date_adds_30_day_months:
  "calculate_next_inspection_date pads ''2024-03-15'' 12 = Inr ''2025-03-10'' \<and>
   (strptime s = Inr ld \<and> 0 < toordinal ld + m * 30 \<and> toordinal ld + m * 30 \<le> MAXORDINAL \<longrightarrow>
     (\<exists>next_date. calculate_next_inspection_date pads s m = Inr (strftime_ymd pads next_date)
        \<and> valid_date next_date
        \<and> toordinal next_date = toordinal ld + m * 30
        \<and> (pads \<or> 1000 \<le> year next_date \<longrightarrow>
             strptime (strftime_ymd pads next_date) = Inr next_date)))"
proof (intro conjI impI)
  have "calculate_next_inspection_date True ''2024-03-15'' 12 = Inr ''2025-03-10''"
    "calculate_next_inspection_date False ''2024-03-15'' 12 = Inr ''2025-03-10''"
    by code_simp+
  then show "calculate_next_inspection_date pads ''2024-03-15'' 12 = Inr ''2025-03-10''"
    by (cases pads) simp_all
next
  assume a: "strptime s = Inr ld \<and> 0 < toordinal ld + m * 30 \<and> toordinal ld + m * 30 \<le> MAXORDINAL"
  have v: "valid_date ld" using a strptime_Inr[of s ld] by simp
  define nd where "nd = fromordinal (toordinal ld + m * 30)"
  have p: "date_plus_days ld (m * 30) = Inr nd"
    unfolding nd_def using v a by (intro date_plus_days_in_range) simp_all
  have c: "calculate_next_inspection_date pads s m = Inr (strftime_ymd pads nd)"
    using a p by (simp add: calculate_next_inspection_date_def except_ValueError_def)
  have vn: "valid_date nd" and t: "toordinal nd = toordinal ld + m * 30"
    using date_plus_days_Inr[OF v p] by simp_all
  have "pads \<or> 1000 \<le> year nd \<longrightarrow> strptime (strftime_ymd pads nd) = Inr nd"
    using vn by (auto intro: strptime_strftime_ymd)
  then show "\<exists>next_date. calculate_next_inspection_date pads s m = Inr (strftime_ymd pads next_date)
        \<and> valid_date next_date
        \<and> toordinal next_date = toordinal ld + m * 30
        \<and> (pads \<or> 1000 \<le> year next_date \<longrightarrow>
             strptime (strftime_ymd pads next_date) = Inr next_date)"
    using c vn t by blast
qed

theorem calculate_next_inspection_date_adds_30_day_months_witness:
  "strptime ''2024-03-15'' = Inr \<lparr>year = 2024, month = 3, day = 15\<rparr>
   \<and> calculate_next_inspection_date False ''2024-03-15'' 12 = Inr ''2025-03-10''
   \<and> strptime ''2025-03-10'' = Inr \<lparr>year = 2025, month = 3, day = 10\<rparr>
   \<and> toordinal \<lparr>year = 2025, month = 3, day = 10\<rparr> = toordinal \<lparr>year = 2024, month = 3, day = 15\<rparr> + 12 * 30"
proof -
  have h: "strptime ''2024-03-15'' = Inr \<lparr>year = 2024, month = 3, day = 15\<rparr>
      \<and> 0 < toordinal \<lparr>year = 2024, month = 3, day = 15\<rparr> + 12 * 30
      \<and> toordinal \<lparr>year = 2024, month = 3, day = 15\<rparr> + 12 * 30 \<le> MAXORDINAL"
    by code_simp
  from calculate_next_inspection_date_adds_30_day_months
         [where pads = False and s = "''2024-03-15''" and m = 12 and ld = "\<lparr>year = 2024, month = 3, day = 15\<rparr>"] h
  obtain next_date where
    n: "calculate_next_inspection_date False ''2024-03-15'' 12 = Inr (strftime_ymd False next_date)"
      "valid_date next_date" "toordinal next_date = toordinal \<lparr>year = 2024, month = 3, day = 15\<rparr> + 12 * 30"
      "False \<or> 1000 \<le> year next_date \<longrightarrow> strptime (strftime_ymd False next_date) = Inr next_date"
    and e: "calculate_next_inspection_date False ''2024-03-15'' 12 = Inr ''2025-03-10''"
    by blast
  have p: "strptime ''2025-03-10'' = Inr \<lparr>year = 2025, month = 3, day = 10\<rparr>" by code_simp
  have f: "strftime_ymd False next_date = ''2025-03-10''" using n(1) e by simp
  have y: "1000 \<le> year next_date"
  proof (rule ccontr)
    assume "\<not> 1000 \<le> year next_date"
    then have "year next_date < 1000" by simp
    moreover have "days_before_year (year next_date) < toordinal next_date"
      using n(2) by (intro toordinal_bounds(1) valid_date_md)
    moreover have "toordinal next_date
        \<le> days_before_year (year next_date) + 365 + (if is_leap (year next_date) then 1 else 0)"
      using n(2) by (intro toordinal_bounds(2) valid_date_md)
    moreover have "days_before_year (year next_date) + 365
        + (if is_leap (year next_date) then 1 else 0) \<le> days_before_year 1000"
      using calculation(1) by (intro dby_mono_strict)
    moreover have "days_before_year 1000 = 364877" by (simp add: days_before_year_def)
    moreover have "toordinal \<lparr>year = 2024, month = 3, day = 15\<rparr> + 12 * 30 = 739320" by code_simp
    ultimately show False using n(3) by linarith
  qed
  have "strptime (strftime_ymd False next_date) = Inr next_date" using n(4) y by simp
  then have "next_date = \<lparr>year = 2025, month = 3, day = 10\<rparr>" using p unfolding f by simp
  then show ?thesis using h e p n(3) by simp
qed

text \<open>
  \<^bold>\<open>Claim C9\<close>, as the code has it. For every text that the parser \<open>strptime\<close>
  rejects, each of the seven date-parsing operations returns its failure value: the two
  date validations and the range validation (with the text as either bound) return
  \<open>False\<close> with a message, the next-due computation returns the empty text, the overdue
  check returns \<open>False\<close>, the days until due are \<open>0\<close> and the status is \<open>unknown\<close>
  or \<open>error\<close>. For no text at all does any of them let the \<open>ValueError\<close> of the
  parser leave the function. The parser rejects no date of the form \<open>YYYY-MM-DD\<close>; the
  texts it accepts beyond that form get the ordinary results.
\<close>

theorem rejected_date_text_gives_typed_failure:
  "(strptime s = Inl ValueError \<longrightarrow>
      (\<exists>msg. validate_inspection_date today s = Inr (False, msg))
      \<and> (\<exists>msg. validate_last_inspection_date today s = Inr (False, msg))
      \<and> (\<exists>msg. validate_date_range s other = Inr (False, msg))
      \<and> (\<exists>msg. validate_date_range other s = Inr (False, msg))
      \<and> calculate_next_inspection_date pads s m = Inr []
      \<and> is_overdue today s m = Inr False
      \<and> get_days_until_due today s m = Inr 0
      \<and> (\<exists>r. get_inspection_status pads today s m = Inr r
             \<and> (status r = ''unknown'' \<or> status r = ''error'')
             \<and> \<not> status_is_overdue r \<and> days_until_due r = 0 \<and> next_inspection_date r = []))
   \<and> validate_inspection_date today t \<noteq> Inl ValueError
   \<and> validate_last_inspection_date today t \<noteq> Inl ValueError
   \<and> validate_date_range t other \<noteq> Inl ValueError
   \<and> validate_date_range other t \<noteq> Inl ValueError
   \<and> calculate_next_inspection_date pads t m \<noteq> Inl ValueError
   \<and> is_overdue today t m \<noteq> Inl ValueError
   \<and> get_days_until_due today t m \<noteq> Inl ValueError
   \<and> get_inspection_status pads today t m \<noteq> Inl ValueError
   \<and> (spec_well_formed_date w \<longrightarrow> strptime w \<noteq> Inl ValueError)"
proof (intro conjI impI)
  assume r: "strptime s = Inl ValueError"
  show "\<exists>msg. validate_inspection_date today s = Inr (False, msg)"
    using r by (simp add: validate_inspection_date_def except_ValueError_def)
  show "\<exists>msg. validate_last_inspection_date today s = Inr (False, msg)"
    using r by (simp add: validate_last_inspection_date_def except_ValueError_def)
  show "\<exists>msg. validate_date_range s other = Inr (False, msg)"
    using r by (simp add: validate_date_range_def except_ValueError_def)
  show "\<exists>msg. validate_date_range other s = Inr (False, msg)"
    using r
    by (cases "strptime other")
       (auto simp: validate_date_range_def except_ValueError_def dest: strptime_Inl)
  show "calculate_next_inspection_date pads s m = Inr []"
    using r by (simp add: calculate_next_inspection_date_def except_ValueError_def)
  show "is_overdue today s m = Inr False"
    using r by (simp add: is_overdue_cases)
  show "get_days_until_due today s m = Inr 0"
    using r by (simp add: get_days_until_due_cases)
  show "\<exists>r. get_inspection_status pads today s m = Inr r
             \<and> (status r = ''unknown'' \<or> status r = ''error'')
             \<and> \<not> status_is_overdue r \<and> days_until_due r = 0 \<and> next_inspection_date r = []"
    using r by (simp add: get_inspection_status_def except_ValueError_def)
next
  show "validate_inspection_date today t \<noteq> Inl ValueError"
    unfolding validate_inspection_date_def by (rule except_ValueError_returns)
  show "validate_last_inspection_date today t \<noteq> Inl ValueError"
    unfolding validate_last_inspection_date_def by (rule except_ValueError_returns)
  show "validate_date_range t other \<noteq> Inl ValueError"
    unfolding validate_date_range_def by (rule except_ValueError_returns)
  show "validate_date_range other t \<noteq> Inl ValueError"
    unfolding validate_date_range_def by (rule except_ValueError_returns)
  show "calculate_next_inspection_date pads t m \<noteq> Inl ValueError"
    unfolding calculate_next_inspection_date_def by (rule except_ValueError_returns)
  show "is_overdue today t m \<noteq> Inl ValueError"
    unfolding is_overdue_def by (rule except_ValueError_returns)
  show "get_days_until_due today t m \<noteq> Inl ValueError"
    unfolding get_days_until_due_def by (rule except_ValueError_returns)
  show "get_inspection_status pads today t m \<noteq> Inl ValueError"
    unfolding get_inspection_status_def by (rule except_ValueError_returns)
next
  assume "spec_well_formed_date w"
  then show "strptime w \<noteq> Inl ValueError" using strptime_well_formed[of w] by auto
qed

theorem rejected_date_text_gives_typed_failure_witness:
  "strptime ''15/03/2024'' = Inl ValueError
   \<and> (\<exists>msg. validate_inspection_date \<lparr>year = 2025, month = 3, day = 11\<rparr> ''15/03/2024'' = Inr (False, msg))
   \<and> (\<exists>msg. validate_date_range ''2024-03-15'' ''15/03/2024'' = Inr (False, msg))
   \<and> calculate_next_inspection_date False ''15/03/2024'' 12 = Inr []
   \<and> is_overdue \<lparr>year = 2025, month = 3, day = 11\<rparr> ''15/03/2024'' 12 = Inr False
   \<and> get_days_until_due \<lparr>year = 2025, month = 3, day = 11\<rparr> ''15/03/2024'' 12 = Inr 0
   \<and> spec_well_formed_date ''2024-03-15''
   \<and> strptime ''2024-03-15'' \<noteq> Inl ValueError"
proof -
  have h: "strptime ''15/03/2024'' = Inl ValueError" by code_simp
  have g: "spec_well_formed_date ''2024-03-15''" by code_simp
  show ?thesis
    using rejected_date_text_gives_typed_failure
            [where s = "''15/03/2024''" and today = "\<lparr>year = 2025, month = 3, day = 11\<rparr>" and m = 12 and pads = False
               and other = "''2024-03-15''" and w = "''2024-03-15''"] h g
    by blast
qed

text \<open>
  The text \<open>2024-3-5\<close> is not of the form \<open>YYYY-MM-DD\<close>, and the parser takes it as
  the fifth of March: the range validation succeeds, and the overdue check and the days
  until due are those of that date, not the failure values.
\<close>

theorem single_digit_date_text_is_parsed:
  "\<not> spec_well_formed_date ''2024-3-5''
   \<and> strptime ''2024-3-5'' = Inr \<lparr>year = 2024, month = 3, day = 5\<rparr>
   \<and> validate_date_range ''2024-3-5'' ''2024-03-06'' = Inr (True, Intervalo_valido)
   \<and> is_overdue \<lparr>year = 2025, month = 3, day = 11\<rparr> ''2024-3-5'' 12 = Inr True
   \<and> get_days_until_due \<lparr>year = 2025, month = 3, day = 11\<rparr> ''2024-3-5'' 12 = Inr (- 11)"
  by code_simp

section \<open>Properties of the database operations\<close>

lemma get_inspection_by_id_None:
  "inspection_id \<notin> set (map row_id (inspecoes db)) \<Longrightarrow> get_inspection_by_id db inspection_id = None"
  by (auto simp: get_inspection_by_id_def find_None_iff)

lemma filter_other_ids:
  "inspection_id \<notin> set (map row_id rows) \<Longrightarrow> filter (\<lambda>r. row_id r \<noteq> inspection_id) rows = rows"
  by (induction rows) auto

lemma remove_photo_undeletable: "undeletable (remove_photo fs v) = undeletable fs"
  by (auto simp: remove_photo_def os_remove_def split: sqlval.splits)

lemma remove_photo_files: "files (remove_photo fs v) \<subseteq> files fs"
  by (auto simp: remove_photo_def os_remove_def split: sqlval.splits)

lemma remove_photo_removes:
  "p \<noteq> [] \<Longrightarrow> p \<notin> undeletable fs \<Longrightarrow> p \<notin> files (remove_photo fs (Text p))"
  by (auto simp: remove_photo_def os_remove_def os_path_exists_def)

lemma fold_remove_photo_undeletable:
  "undeletable (fold (\<lambda>r f. remove_photo f (foto_path r)) rows fs) = undeletable fs"
  by (induction rows arbitrary: fs) (simp_all add: remove_photo_undeletable)

lemma fold_remove_photo_files:
  "files (fold (\<lambda>r f. remove_photo f (foto_path r)) rows fs) \<subseteq> files fs"
proof (induction rows arbitrary: fs)
  case Nil
  show ?case by simp
next
  case (Cons r rows)
  have "files (fold (\<lambda>r f. remove_photo f (foto_path r)) rows (remove_photo fs (foto_path r)))
          \<subseteq> files (remove_photo fs (foto_path r))" by (rule Cons.IH)
  also have "\<dots> \<subseteq> files fs" by (rule remove_photo_files)
  finally show ?case by simp
qed

lemma fold_remove_photo_removes:
  assumes "r \<in> set rows" "foto_path r = Text p" "p \<noteq> []" "p \<notin> undeletable fs"
  shows "p \<notin> files (fold (\<lambda>r f. remove_photo f (foto_path r)) rows fs)"
  using assms
proof (induction rows arbitrary: fs)
  case Nil
  then show ?case by simp
next
  case (Cons x rows)
  show ?case
  proof (cases "x = r")
    case True
    have "p \<notin> files (remove_photo fs (foto_path x))"
      using True Cons.prems by (simp add: remove_photo_removes)
    then show ?thesis
      using fold_remove_photo_files[of rows "remove_photo fs (foto_path x)"] by auto
  next
    case False
    then have "r \<in> set rows" using Cons.prems by simp
    moreover have "p \<notin> undeletable (remove_photo fs (foto_path x))"
      using Cons.prems by (simp add: remove_photo_undeletable)
    ultimately show ?thesis using Cons.IH Cons.prems by simp
  qed
qed

lemma validate_form_first_fields:
  assumes "strip (plataforma_var f) = [] \<or> strip (modulo_var f) = [] \<or> strip (setor_var f) = []"
  shows "\<exists>field \<in> set [''plataforma'', ''modulo'', ''setor''].
           validate_form f = Inr (False, [Campo_e_obrigatorio field])"
  using assms by (auto simp: validate_form_def required_fields_def getattr_def)

text \<open>The key of a new row is larger than every key of the table.\<close>

lemma fold_max_ge: "a \<le> fold max xs (a::int)"
proof (induction xs arbitrary: a)
  case Nil
  show ?case by simp
next
  case (Cons x xs)
  have "a \<le> max x a" by simp
  also have "\<dots> \<le> fold max xs (max x a)" by (rule Cons.IH)
  finally show ?case by simp
qed

lemma fold_max_ge_elem: "x \<in> set xs \<Longrightarrow> x \<le> fold max xs (a::int)"
proof (induction xs arbitrary: a)
  case Nil
  then show ?case by simp
next
  case (Cons y ys)
  show ?case
  proof (cases "x = y")
    case True
    have "x \<le> max y a" using True by simp
    also have "\<dots> \<le> fold max ys (max y a)" by (rule fold_max_ge)
    finally show ?thesis by simp
  next
    case False
    then have "x \<in> set ys" using Cons.prems by simp
    then show ?thesis using Cons.IH by simp
  qed
qed

lemma next_rowid_fresh: "next_rowid seq ids \<notin> set ids"
proof
  assume "next_rowid seq ids \<in> set ids"
  then have "next_rowid seq ids \<le> fold max ids seq" by (rule fold_max_ge_elem)
  then show False by (simp add: next_rowid_def)
qed

section \<open>The claims about the database\<close>

text \<open>
  \<^bold>\<open>Claim C1.\<close> The claim: an update that changes \<open>N\<close> fields appends \<open>N\<close> rows
  to \<open>historico_alteracoes\<close>, and an update with the stored values appends none. The
  record saved from \<open>example_fields\<close> is updated with the same \<open>example_fields\<close>:
  \<open>update_inspection\<close> succeeds and appends five rows. \<open>_log_changes\<close> reads
  the new values under the column names \<open>tipo_equipamento\<close>, \<open>categoria_rti\<close>,
  \<open>ultima_inspecao\<close>, \<open>data_inspecao\<close> and \<open>tipo_dano\<close>, which the dictionary of
  the form does not have (its keys are \<open>tipoEquipamento\<close>, \<open>categoriaRTI\<close>,
  \<open>ultima\<close>, \<open>data\<close>, \<open>tipoDano\<close>, the ones the \<open>UPDATE\<close> itself uses), so
  each of the five is logged as changed to the empty text.
\<close>

theorem update_with_identical_values_logs_five_rows:
  "fst (update_inspection example_clock 1 example_fields one_record_database) = True
   \<and> map (\<lambda>h. (campo h, valor_anterior h, valor_novo h))
       (historico_alteracoes
          (snd (update_inspection example_clock 1 example_fields one_record_database)))
     = [(''tipo_equipamento'', ''Tanque'', []), (''categoria_rti'', ''II'', []),
        (''ultima_inspecao'', ''2024-03-15'', []), (''data_inspecao'', ''2025-03-01'', []),
        (''tipo_dano'', ''Localizado'', [])]"
  by code_simp

text \<open>
  \<^bold>\<open>Claim C2\<close>, as the code has it. \<open>save_inspection\<close> of the database validates
  nothing: whenever no \<open>NOT NULL\<close> column receives \<open>None\<close> and the table has a key
  left, it appends exactly one row and returns its key, which no row had before. The row
  holds the values given under the fourteen keys of the form, a missing one as the empty
  text: each text as it is in the twelve \<open>TEXT\<close> columns, and in the two \<open>DATE\<close>
  columns as well unless it has the shape of a number, which is stored as the number the
  engine makes of it. Empty texts are inserted like any other. The required fields are
  checked by the form before the insert: when \<open>plataforma\<close>, \<open>modulo\<close> or \<open>setor\<close>
  is empty after stripping, saving the form shows the validation error of a required field
  and leaves the form and the database unchanged.
\<close>

theorem required_fields_are_validated_by_the_form:
  "(\<not> not_null_violation data
      \<and> in_int64 (next_rowid (seq_inspecoes db) (map row_id (inspecoes db))) \<longrightarrow>
      (\<exists>i. i \<notin> set (map row_id (inspecoes db))
          \<and> save_inspection clk data db
              = (Inr i,
                 db\<lparr>inspecoes := inspecoes db @
                   [\<lparr>row_id = i,
                     plataforma = store_text (dict_get data ''plataforma'' (PStr [])),
                     modulo = store_text (dict_get data ''modulo'' (PStr [])),
                     setor = store_text (dict_get data ''setor'' (PStr [])),
                     tipo_equipamento = store_text (dict_get data ''tipoEquipamento'' (PStr [])),
                     tag = store_text (dict_get data ''tag'' (PStr [])),
                     defeito = store_text (dict_get data ''defeito'' (PStr [])),
                     causa = store_text (dict_get data ''causa'' (PStr [])),
                     categoria_rti = store_text (dict_get data ''categoriaRTI'' (PStr [])),
                     recomendacao = store_text (dict_get data ''recomendacao'' (PStr [])),
                     ultima_inspecao =
                       store_numeric (numeric_value db) (dict_get data ''ultima'' (PStr [])),
                     data_inspecao =
                       store_numeric (numeric_value db) (dict_get data ''data'' (PStr [])),
                     tipo_dano = store_text (dict_get data ''tipoDano'' (PStr [])),
                     observacoes = store_text (dict_get data ''observacoes'' (PStr [])),
                     foto_path = store_text (dict_get data ''foto_path'' (PStr [])),
                     created_at = store_numeric (numeric_value db) (PStr (isoformat_now clk 0)),
                     updated_at = store_numeric (numeric_value db) (PStr (isoformat_now clk 1))\<rparr>],
                    seq_inspecoes := i\<rparr>)))
   \<and> (strip (plataforma_var f) = [] \<or> strip (modulo_var f) = [] \<or> strip (setor_var f) = [] \<longrightarrow>
      (\<exists>field \<in> set required_fields.
          app_save_inspection clk env f db = ([Campo_e_obrigatorio field], f, db)))"
proof (intro conjI impI)
  assume n: "\<not> not_null_violation data
      \<and> in_int64 (next_rowid (seq_inspecoes db) (map row_id (inspecoes db)))"
  define i where "i = next_rowid (seq_inspecoes db) (map row_id (inspecoes db))"
  have fresh: "i \<notin> set (map row_id (inspecoes db))" unfolding i_def by (rule next_rowid_fresh)
  have "save_inspection clk data db
              = (Inr i,
                 db\<lparr>inspecoes := inspecoes db @
                   [\<lparr>row_id = i,
                     plataforma = store_text (dict_get data ''plataforma'' (PStr [])),
                     modulo = store_text (dict_get data ''modulo'' (PStr [])),
                     setor = store_text (dict_get data ''setor'' (PStr [])),
                     tipo_equipamento = store_text (dict_get data ''tipoEquipamento'' (PStr [])),
                     tag = store_text (dict_get data ''tag'' (PStr [])),
                     defeito = store_text (dict_get data ''defeito'' (PStr [])),
                     causa = store_text (dict_get data ''causa'' (PStr [])),
                     categoria_rti = store_text (dict_get data ''categoriaRTI'' (PStr [])),
                     recomendacao = store_text (dict_get data ''recomendacao'' (PStr [])),
                     ultima_inspecao =
                       store_numeric (numeric_value db) (dict_get data ''ultima'' (PStr [])),
                     data_inspecao =
                       store_numeric (numeric_value db) (dict_get data ''data'' (PStr [])),
                     tipo_dano = store_text (dict_get data ''tipoDano'' (PStr [])),
                     observacoes = store_text (dict_get data ''observacoes'' (PStr [])),
                     foto_path = store_text (dict_get data ''foto_path'' (PStr [])),
                     created_at = store_numeric (numeric_value db) (PStr (isoformat_now clk 0)),
                     updated_at = store_numeric (numeric_value db) (PStr (isoformat_now clk 1))\<rparr>],
                    seq_inspecoes := i\<rparr>)"
    using n by (simp add: save_inspection_def Let_def i_def bind_columns_def empty_row_def)
  then show "\<exists>i. i \<notin> set (map row_id (inspecoes db))
          \<and> save_inspection clk data db
              = (Inr i,
                 db\<lparr>inspecoes := inspecoes db @
                   [\<lparr>row_id = i,
                     plataforma = store_text (dict_get data ''plataforma'' (PStr [])),
                     modulo = store_text (dict_get data ''modulo'' (PStr [])),
                     setor = store_text (dict_get data ''setor'' (PStr [])),
                     tipo_equipamento = store_text (dict_get data ''tipoEquipamento'' (PStr [])),
                     tag = store_text (dict_get data ''tag'' (PStr [])),
                     defeito = store_text (dict_get data ''defeito'' (PStr [])),
                     causa = store_text (dict_get data ''causa'' (PStr [])),
                     categoria_rti = store_text (dict_get data ''categoriaRTI'' (PStr [])),
                     recomendacao = store_text (dict_get data ''recomendacao'' (PStr [])),
                     ultima_inspecao =
                       store_numeric (numeric_value db) (dict_get data ''ultima'' (PStr [])),
                     data_inspecao =
                       store_numeric (numeric_value db) (dict_get data ''data'' (PStr [])),
                     tipo_dano = store_text (dict_get data ''tipoDano'' (PStr [])),
                     observacoes = store_text (dict_get data ''observacoes'' (PStr [])),
                     foto_path = store_text (dict_get data ''foto_path'' (PStr [])),
                     created_at = store_numeric (numeric_value db) (PStr (isoformat_now clk 0)),
                     updated_at = store_numeric (numeric_value db) (PStr (isoformat_now clk 1))\<rparr>],
                    seq_inspecoes := i\<rparr>)"
    using fresh by blast
next
  assume "strip (plataforma_var f) = [] \<or> strip (modulo_var f) = [] \<or> strip (setor_var f) = []"
  then obtain field where "field \<in> set [''plataforma'', ''modulo'', ''setor'']"
    "validate_form f = Inr (False, [Campo_e_obrigatorio field])"
    using validate_form_first_fields by blast
  then show "\<exists>field \<in> set required_fields.
          app_save_inspection clk env f db = ([Campo_e_obrigatorio field], f, db)"
    by (auto simp: app_save_inspection_def required_fields_def)
qed

theorem required_fields_are_validated_by_the_form_witness:
  "(\<exists>i. i \<notin> set (map row_id (inspecoes one_record_database))
       \<and> fst (save_inspection example_clock example_fields_other one_record_database) = Inr i
       \<and> map tag (inspecoes (snd (save_inspection example_clock example_fields_other
                                     one_record_database)))
           = [Text ''TQ-001'', Text ''TQ-002''])
   \<and> strip (setor_var partly_filled_form) = []
   \<and> (\<exists>field \<in> set required_fields.
         app_save_inspection example_clock example_env partly_filled_form empty_database
           = ([Campo_e_obrigatorio field], partly_filled_form, empty_database))"
proof -
  have h1: "\<not> not_null_violation example_fields_other
      \<and> in_int64 (next_rowid (seq_inspecoes one_record_database)
                     (map row_id (inspecoes one_record_database)))"
    by code_simp
  have h2: "strip (setor_var partly_filled_form) = []" by code_simp
  have t: "map tag (inspecoes one_record_database) = [Text ''TQ-001'']"
    "store_text (dict_get example_fields_other ''tag'' (PStr [])) = Text ''TQ-002''"
    by code_simp+
  from required_fields_are_validated_by_the_form
         [where data = example_fields_other and clk = example_clock
            and db = one_record_database] h1
  obtain i row where
    s: "i \<notin> set (map row_id (inspecoes one_record_database))"
      "save_inspection example_clock example_fields_other one_record_database
         = (Inr i, one_record_database
                     \<lparr>inspecoes := inspecoes one_record_database @ [row], seq_inspecoes := i\<rparr>)"
      "tag row = store_text (dict_get example_fields_other ''tag'' (PStr []))"
    by fastforce
  have a: "\<exists>i. i \<notin> set (map row_id (inspecoes one_record_database))
       \<and> fst (save_inspection example_clock example_fields_other one_record_database) = Inr i
       \<and> map tag (inspecoes (snd (save_inspection example_clock example_fields_other
                                     one_record_database)))
           = [Text ''TQ-001'', Text ''TQ-002'']"
    using s t by auto
  have b: "\<exists>field \<in> set required_fields.
         app_save_inspection example_clock example_env partly_filled_form empty_database
           = ([Campo_e_obrigatorio field], partly_filled_form, empty_database)"
    using required_fields_are_validated_by_the_form
            [where f = partly_filled_form and clk = example_clock and env = example_env
               and db = empty_database] h2
    by blast
  show ?thesis using a h2 b by blast
qed

text \<open>
  \<open>save_inspection\<close> on a field set without any field returns the key \<open>1\<close> and
  inserts a row whose \<open>plataforma\<close> is the empty text.
\<close>

theorem save_inspection_inserts_empty_fields:
  "fst (save_inspection example_clock Map.empty empty_database) = Inr 1
   \<and> map plataforma (inspecoes (snd (save_inspection example_clock Map.empty empty_database)))
       = [Text []]"
  by code_simp

text \<open>
  \<^bold>\<open>Claim C6\<close>, as the code has it. For every identifier that is not in the table
  \<open>inspecoes\<close>, \<open>delete_inspection\<close> changes nothing: both tables and the photo
  directory are as before. It returns \<open>True\<close> when the identifier is a signed 64-bit
  integer, the \<open>DELETE\<close> of no row being a success, and \<open>False\<close> when it is not and
  cannot be bound to the statement.
\<close>

theorem delete_inspection_unknown_id:
  assumes "inspection_id \<notin> set (map row_id (inspecoes db))"
  shows "delete_inspection inspection_id db fs = (in_int64 inspection_id, db, fs)"
  using get_inspection_by_id_None[OF assms] assms filter_other_ids[OF assms]
  by (simp add: delete_inspection_def)

theorem delete_inspection_unknown_id_witness:
  "2 \<notin> set (map row_id (inspecoes one_photo_database))
   \<and> delete_inspection 2 one_photo_database protected_photo_directory
       = (True, one_photo_database, protected_photo_directory)
   \<and> 2 ^ 63 \<notin> set (map row_id (inspecoes one_photo_database))
   \<and> delete_inspection (2 ^ 63) one_photo_database protected_photo_directory
       = (False, one_photo_database, protected_photo_directory)"
proof -
  have h: "2 \<notin> set (map row_id (inspecoes one_photo_database))"
    "2 ^ 63 \<notin> set (map row_id (inspecoes one_photo_database))" by code_simp+
  have r: "in_int64 2" "\<not> in_int64 (2 ^ 63)" by (simp_all add: in_int64_def)
  show ?thesis
    using delete_inspection_unknown_id[OF h(1)] delete_inspection_unknown_id[OF h(2)] h r
    by simp
qed

text \<open>
  On the empty database \<open>delete_inspection 1\<close> returns \<open>True\<close>, not a failure flag.
\<close>

theorem delete_inspection_unknown_id_returns_True:
  "1 \<notin> set (map row_id (inspecoes empty_database))
   \<and> fst (delete_inspection 1 empty_database empty_directory) = True"
  by code_simp

text \<open>
  \<^bold>\<open>Claim C8\<close>, as the code has it. After \<open>clear_all_inspections\<close> returns success
  both tables are empty, no file has been added, and every photo referenced by a stored
  record is gone, except those whose removal fails: the failure of a removal is swallowed
  and that file stays. Whether the operation succeeds does not depend on the photo
  directory: a photo that is already absent does not make it fail.
\<close>

theorem clear_all_inspections_success:
  "(clear_all_inspections db fs = (True, db', fs') \<longrightarrow>
        inspecoes db' = [] \<and> historico_alteracoes db' = []
        \<and> files fs' \<subseteq> files fs
        \<and> (\<forall>r \<in> set (inspecoes db). \<forall>p. foto_path r = Text p \<and> p \<noteq> [] \<and> p \<notin> undeletable fs
              \<longrightarrow> p \<notin> files fs'))
   \<and> fst (clear_all_inspections db fs) = fst (clear_all_inspections db other_fs)"
proof (intro conjI impI)
  assume a: "clear_all_inspections db fs = (True, db', fs')"
  then have d: "db' = db\<lparr>inspecoes := [], historico_alteracoes := []\<rparr>"
    and f: "fs' = fold (\<lambda>r f. remove_photo f (foto_path r)) (inspecoes db) fs"
    by (auto simp: clear_all_inspections_def Let_def split: if_splits)
  show "inspecoes db' = []" "historico_alteracoes db' = []" using d by simp_all
  show "files fs' \<subseteq> files fs" unfolding f by (rule fold_remove_photo_files)
  show "\<forall>r \<in> set (inspecoes db). \<forall>p. foto_path r = Text p \<and> p \<noteq> [] \<and> p \<notin> undeletable fs
              \<longrightarrow> p \<notin> files fs'"
    unfolding f using fold_remove_photo_removes by blast
next
  show "fst (clear_all_inspections db fs) = fst (clear_all_inspections db other_fs)"
    by (simp add: clear_all_inspections_def Let_def)
qed

theorem clear_all_inspections_success_witness:
  "historico_alteracoes orphan_log_database \<noteq> []
   \<and> ''fotos/a.jpg'' \<in> files photo_directory
   \<and> (\<exists>db' fs'. clear_all_inspections orphan_log_database photo_directory = (True, db', fs')
         \<and> inspecoes db' = [] \<and> historico_alteracoes db' = []
         \<and> ''fotos/a.jpg'' \<notin> files fs')
   \<and> ''fotos/a.jpg'' \<notin> files empty_directory
   \<and> fst (clear_all_inspections orphan_log_database empty_directory)"
proof -
  have g: "historico_alteracoes orphan_log_database \<noteq> []"
    "''fotos/a.jpg'' \<in> files photo_directory" "''fotos/a.jpg'' \<notin> files empty_directory"
    by code_simp+
  have r: "hd (inspecoes orphan_log_database) \<in> set (inspecoes orphan_log_database)"
    "foto_path (hd (inspecoes orphan_log_database)) = Text ''fotos/a.jpg''"
    "''fotos/a.jpg'' \<noteq> []" "''fotos/a.jpg'' \<notin> undeletable photo_directory"
    by code_simp+
  have s: "fst (clear_all_inspections orphan_log_database photo_directory)" by code_simp
  note th = clear_all_inspections_success[where db = orphan_log_database and fs = photo_directory]
  from s obtain db' fs' where
    c: "clear_all_inspections orphan_log_database photo_directory = (True, db', fs')"
    by (cases "clear_all_inspections orphan_log_database photo_directory") auto
  have "inspecoes db' = [] \<and> historico_alteracoes db' = [] \<and> ''fotos/a.jpg'' \<notin> files fs'"
    using th[where db' = db' and fs' = fs'] c r by blast
  moreover have "fst (clear_all_inspections orphan_log_database empty_directory)"
    using th[where other_fs = empty_directory] s by simp
  ultimately show ?thesis using g c by blast
qed

text \<open>
  With the photo of the only record protected against removal, \<open>clear_all_inspections\<close>
  returns \<open>True\<close> and the photo is still in the directory.
\<close>

theorem clear_all_inspections_leaves_protected_photo:
  "fst (clear_all_inspections one_photo_database protected_photo_directory) = True
   \<and> foto_path (hd (inspecoes one_photo_database)) = Text ''fotos/a.jpg''
   \<and> ''fotos/a.jpg'' \<in> files (snd (snd (clear_all_inspections one_photo_database
                                             protected_photo_directory)))"
  by code_simp

text \<open>
  \<^bold>\<open>Claim C10.\<close> For every identifier that is not in the table \<open>inspecoes\<close>,
  \<open>update_inspection\<close> returns \<open>False\<close> and the database is unchanged: no row is
  updated and no row is appended to the change log.
\<close>

theorem update_inspection_unknown_id:
  assumes "inspection_id \<notin> set (map row_id (inspecoes db))"
  shows "update_inspection clk inspection_id data db = (False, db)"
  using get_inspection_by_id_None[OF assms] by (simp add: update_inspection_def)

theorem update_inspection_unknown_id_witness:
  "2 \<notin> set (map row_id (inspecoes one_record_database))
   \<and> update_inspection example_clock 2 example_fields_other one_record_database
       = (False, one_record_database)"
proof -
  have h: "2 \<notin> set (map row_id (inspecoes one_record_database))" by code_simp
  show ?thesis using update_inspection_unknown_id[OF h] h by simp
qed

section \<open>The claim about the batch of reports\<close>

text \<open>The paths of the reports that succeed, in the order of the records.\<close>

lemma batch_loop_files:
  "fst (batch_loop env n i inspections generated printed) =
     generated @ concat (map (\<lambda>(k, x).
        case generate_inspection_report env k x (dict_get x ''foto_path'' PNone) of
          Inr pdf_path \<Rightarrow> [pdf_path] | Inl e \<Rightarrow> []) (enumerate i inspections))"
proof (induction inspections arbitrary: i generated printed)
  case Nil
  show ?case by simp
next
  case (Cons x xs)
  show ?case
    by (cases "generate_inspection_report env i x (dict_get x ''foto_path'' PNone)")
       (simp_all add: Cons.IH Let_def)
qed

lemma generate_inspection_report_missing_photo:
  assumes "\<not> os_path_exists (report_files env) p"
  shows "generate_inspection_report env k x (PStr p) = generate_inspection_report env k x PNone"
  using assms by (simp add: generate_inspection_report_def Let_def)

text \<open>
  \<^bold>\<open>Claim C7\<close>, as the code has it. Batch generation never aborts: for every list of
  \<open>N\<close> records it returns, in order, exactly the paths of the records whose report is
  generated, a record whose generation fails being skipped, and its last message reports
  the number of paths returned together with \<open>N\<close>. A photo path that names no existing
  file is not a failure: the report of such a record is generated without the photo block,
  exactly as for a record without a photo path.
\<close>

theorem generate_batch_reports_skips_failures_only:
  "fst (generate_batch_reports env inspections) =
     concat (map (\<lambda>(k, x).
        case generate_inspection_report env k x (dict_get x ''foto_path'' PNone) of
          Inr pdf_path \<Rightarrow> [pdf_path] | Inl e \<Rightarrow> []) (enumerate 1 inspections))
   \<and> last (snd (generate_batch_reports env inspections)) =
       Geracao_em_lote_concluida (length (fst (generate_batch_reports env inspections)))
         (length inspections)
   \<and> (\<not> os_path_exists (report_files env) p \<longrightarrow>
        generate_inspection_report env k x (PStr p) = generate_inspection_report env k x PNone)"
proof (intro conjI impI)
  show "fst (generate_batch_reports env inspections) =
     concat (map (\<lambda>(k, x).
        case generate_inspection_report env k x (dict_get x ''foto_path'' PNone) of
          Inr pdf_path \<Rightarrow> [pdf_path] | Inl e \<Rightarrow> []) (enumerate 1 inspections))"
    using batch_loop_files[of env "length inspections" 1 inspections "[]" "[Gerando (length inspections)]"]
    by (auto simp: generate_batch_reports_def Let_def split: prod.splits)
  show "last (snd (generate_batch_reports env inspections)) =
       Geracao_em_lote_concluida (length (fst (generate_batch_reports env inspections)))
         (length inspections)"
    by (simp add: generate_batch_reports_def Let_def split: prod.splits)
next
  assume "\<not> os_path_exists (report_files env) p"
  then show "generate_inspection_report env k x (PStr p) = generate_inspection_report env k x PNone"
    by (rule generate_inspection_report_missing_photo)
qed

theorem generate_batch_reports_skips_failures_only_witness:
  "\<not> os_path_exists (report_files example_env) ''fotos/a.jpg''
   \<and> generate_inspection_report example_env 1 example_fields_with_photo (PStr ''fotos/a.jpg'')
       = generate_inspection_report example_env 1 example_fields_with_photo PNone
   \<and> last (snd (generate_batch_reports example_env [example_fields_with_photo, example_fields_other]))
       = Geracao_em_lote_concluida 2 2"
proof -
  have h: "\<not> os_path_exists (report_files example_env) ''fotos/a.jpg''" by code_simp
  have l: "length (fst (generate_batch_reports example_env
                          [example_fields_with_photo, example_fields_other])) = 2"
    by code_simp
  note th = generate_batch_reports_skips_failures_only
      [where env = example_env and p = "''fotos/a.jpg''" and k = 1
         and x = example_fields_with_photo
         and inspections = "[example_fields_with_photo, example_fields_other]"]
  show ?thesis using th h unfolding l by simp
qed

text \<open>
  Two records, the first with a photo path that names no file: both reports are generated.
\<close>

theorem generate_batch_reports_invalid_photo_path_still_reported:
  "dict_get example_fields_with_photo ''foto_path'' PNone = PStr ''fotos/a.jpg''
   \<and> \<not> os_path_exists (report_files example_env) ''fotos/a.jpg''
   \<and> dict_get example_fields_other ''foto_path'' PNone = PStr []
   \<and> fst (generate_batch_reports example_env [example_fields_with_photo, example_fields_other])
       = [''relatorios/relatorio_inspecao_TQ-001_20250311_101500.pdf'',
          ''relatorios/relatorio_inspecao_TQ-002_20250311_101500.pdf'']"
  by code_simp

end
